theory Spec2Isabelle
  imports Complex_Main "HOL-Library.Word" "HOL-Library.Sublist"
begin

chapter \<open>The model\<close>

section \<open>JavaScript strings\<close>

text \<open>
  A JavaScript string is a sequence of UTF-16 code units; \<open>length\<close>, \<open>substring\<close>,
  \<open>startsWith\<close> and \<open>===\<close> all work on code units. The model keeps that: a string is a
  list of 16-bit words, and \<open>js\<close> writes an ASCII literal of the source as such a list.
\<close>

type_synonym jstring = "16 word list"

definition js :: "string \<Rightarrow> jstring" where
  "js s = map (\<lambda>c. of_nat (of_char c)) s"

section \<open>Rate limiting for sensitive operations (middleware/auth.js)\<close>

text \<open>
  \<open>sensitiveOperationLimit(maxAttempts, windowMs)\<close> closes over a fresh \<open>Map\<close> from an
  identity key to the array of admission times (milliseconds, as \<open>Date.now()\<close> gives them).
  The middleware either calls \<open>next()\<close> or answers with status 429 and a \<open>retryAfter\<close> field.
  \<open>userAttempts[0]\<close> of an empty array is \<open>undefined\<close>, the arithmetic on it gives \<open>NaN\<close>
  and JSON writes \<open>null\<close>: that is \<open>None\<close> here.
\<close>

datatype limit_response = CallNext | Respond (limit_status: nat) (retryAfter: "int option")

definition retry_after :: "int list \<Rightarrow> int \<Rightarrow> int \<Rightarrow> int option" where
  "retry_after userAttempts windowMs now =
     (case userAttempts of
        [] \<Rightarrow> None
      | t # _ \<Rightarrow> Some \<lceil>rat_of_int (t + windowMs - now) / 1000\<rceil>)"

definition sensitiveOperationLimit ::
  "int \<Rightarrow> int \<Rightarrow> ('k \<rightharpoonup> int list) \<Rightarrow> 'k \<Rightarrow> int \<Rightarrow> limit_response \<times> ('k \<rightharpoonup> int list)" where
  "sensitiveOperationLimit maxAttempts windowMs attempts key now =
     (let windowStart = now - windowMs;
          userAttempts = (case attempts key of
                            Some ts \<Rightarrow> filter (\<lambda>time. time > windowStart) ts
                          | None \<Rightarrow> []);
          attempts1 = attempts(key \<mapsto> userAttempts)
      in if maxAttempts \<le> int (length userAttempts)
         then (Respond 429 (retry_after userAttempts windowMs now), attempts1)
         else (CallNext, attempts1(key \<mapsto> userAttempts @ [now])))"

text \<open>A sequence of requests, each with its key and its arrival time, through one limiter.\<close>

fun limiter_state :: "int \<Rightarrow> int \<Rightarrow> ('k \<rightharpoonup> int list) \<Rightarrow> ('k \<times> int) list \<Rightarrow> ('k \<rightharpoonup> int list)" where
  "limiter_state m w st [] = st"
| "limiter_state m w st (q # qs) =
     limiter_state m w (snd (sensitiveOperationLimit m w st (fst q) (snd q))) qs"

fun limiter_run :: "int \<Rightarrow> int \<Rightarrow> ('k \<rightharpoonup> int list) \<Rightarrow> ('k \<times> int) list \<Rightarrow> limit_response list" where
  "limiter_run m w st [] = []"
| "limiter_run m w st (q # qs) =
     fst (sensitiveOperationLimit m w st (fst q) (snd q))
       # limiter_run m w (snd (sensitiveOperationLimit m w st (fst q) (snd q))) qs"

text \<open>The arrival times of the requests of key \<open>k\<close> that were admitted.\<close>

definition admitted :: "'k \<Rightarrow> ('k \<times> int) list \<Rightarrow> limit_response list \<Rightarrow> int list" where
  "admitted k reqs resps =
     map (\<lambda>p. snd (fst p)) (filter (\<lambda>p. fst (fst p) = k \<and> snd p = CallNext) (zip reqs resps))"

definition in_window :: "int \<Rightarrow> int \<Rightarrow> int \<Rightarrow> bool" where
  "in_window a w t = (a < t \<and> t \<le> a + w)"

text \<open>
  The invariant of a run: what the map stores for a key is the admitted times of that key
  that were younger than the window at the key's last request, and no window holds more
  than \<open>maxAttempts\<close> admitted requests.
\<close>

definition stored_ok :: "int \<Rightarrow> int \<Rightarrow> ('k \<times> int) list \<Rightarrow> 'k \<Rightarrow> bool" where
  "stored_ok m w reqs k =
     (case limiter_state m w Map.empty reqs k of
        None \<Rightarrow> admitted k reqs (limiter_run m w Map.empty reqs) = []
      | Some ts \<Rightarrow> (\<exists>c. c \<in> snd ` set reqs \<and>
            ts = filter (\<lambda>t. c - w < t) (admitted k reqs (limiter_run m w Map.empty reqs))))"

definition bound_ok :: "int \<Rightarrow> int \<Rightarrow> ('k \<times> int) list \<Rightarrow> 'k \<Rightarrow> bool" where
  "bound_ok m w reqs k =
     (\<forall>a. length (filter (in_window a w) (admitted k reqs (limiter_run m w Map.empty reqs))) \<le> nat m)"

section \<open>Documents of the File and AiInsight collections (models/File.js, models/AiInsight.js)\<close>

text \<open>
  An optional field of a document is an \<open>option\<close>: \<open>None\<close> is JavaScript's \<open>undefined\<close> (or
  \<open>null\<close>). The analysis result of the AI service is modelled with the shape both schemas
  declare for it; every field of it is optional, as in the JSON the service returns.
\<close>

record bilingual =
  english :: "jstring option"
  urdu :: "jstring option"

record key_finding =
  kf_parameter :: "jstring option"
  kf_value :: "jstring option"
  kf_unit :: "jstring option"
  kf_normalRange :: "jstring option"
  kf_status :: "jstring option"
  kf_explanation :: "bilingual option"

record abnormal_value =
  av_parameter :: "jstring option"
  av_value :: "jstring option"
  av_unit :: "jstring option"
  av_severity :: "jstring option"
  av_explanation :: "bilingual option"
  av_recommendation :: "bilingual option"

record doctor_question =
  dq_question :: "bilingual option"
  dq_category :: "jstring option"
  dq_priority :: "jstring option"

record lifestyle_rec =
  lr_type :: "jstring option"
  lr_suggestion :: "bilingual option"
  lr_priority :: "jstring option"

record medical_rec =
  mr_suggestion :: "bilingual option"
  mr_urgency :: "jstring option"

record recommendations =
  lifestyle :: "lifestyle_rec list"
  medical :: "medical_rec list"

record risk_factor =
  rf_factor :: "bilingual option"
  rf_level :: "jstring option"
  rf_description :: "bilingual option"

record follow_up =
  fu_type :: "jstring option"
  fu_timeframe :: "jstring option"
  fu_description :: "bilingual option"
  fu_priority :: "jstring option"

record disclaimers =
  aiDisclaimer :: "bilingual option"
  medicalDisclaimer :: "bilingual option"

record analysis =
  summary :: "bilingual option"
  keyFindings :: "key_finding list option"
  abnormalValues :: "abnormal_value list option"
  doctorQuestions :: "doctor_question list option"
  recommendations :: "recommendations option"
  riskFactors :: "risk_factor list option"
  followUpSuggestions :: "follow_up list option"
  confidence :: "rat option"
  processingTime :: "int option"
  disclaimers :: "disclaimers option"

record stored_file =
  originalName :: jstring
  cloudinaryId :: jstring
  url :: jstring
  format :: jstring
  size :: nat
  mimeType :: jstring

datatype file_status = Uploaded | Analyzing | Analyzed | Failed

record file_doc =
  fid :: nat
  fuser :: nat
  reportType :: jstring
  reportDate :: "int option"
  doctorName :: jstring
  hospitalName :: jstring
  report_notes :: jstring
  files :: "stored_file list"
  aiAnalysis :: "analysis list"
  status :: file_status

record insight_doc =
  i_user :: nat
  i_file :: nat
  i_summary :: "bilingual option"
  i_keyFindings :: "key_finding list"
  i_abnormalValues :: "abnormal_value list"
  i_doctorQuestions :: "doctor_question list"
  i_recommendations :: recommendations
  i_riskFactors :: "risk_factor list"
  i_followUpSuggestions :: "follow_up list"
  i_confidence :: rat
  i_model :: jstring
  i_processingTime :: int
  i_disclaimers :: disclaimers

record db =
  db_files :: "file_doc list"
  db_insights :: "insight_doc list"

text \<open>
  What a handler sends: \<open>res.status(c).json({success, message, data})\<close>, or a redirect.
  A handler that never calls \<open>res.status\<close> answers with 200.
\<close>

datatype 'a response =
  Json (code: nat) (success: bool) (message: jstring) (payload: "'a option")
  | Redirect jstring

text \<open>\<open>File.findOne({_id, user})\<close>: the first document with that id and that owner.\<close>

definition findOne_file :: "db \<Rightarrow> nat \<Rightarrow> nat \<Rightarrow> file_doc option" where
  "findOne_file d ident usr = find (\<lambda>f. fid f = ident \<and> fuser f = usr) (db_files d)"

text \<open>\<open>File.findByIdAndDelete(id)\<close> removes the first document with that id.\<close>

fun delete_first :: "('a \<Rightarrow> bool) \<Rightarrow> 'a list \<Rightarrow> 'a list" where
  "delete_first P [] = []"
| "delete_first P (x # xs) = (if P x then xs else x # delete_first P xs)"

definition findByIdAndDelete :: "db \<Rightarrow> nat \<Rightarrow> db" where
  "findByIdAndDelete d ident = d\<lparr>db_files := delete_first (\<lambda>f. fid f = ident) (db_files d)\<rparr>"

text \<open>\<open>Insight.deleteMany({file: id})\<close> and the query \<open>Insight.find({file: id})\<close>.\<close>

definition deleteMany_insights :: "db \<Rightarrow> nat \<Rightarrow> db" where
  "deleteMany_insights d ident = d\<lparr>db_insights := filter (\<lambda>i. i_file i \<noteq> ident) (db_insights d)\<rparr>"

definition insights_by_file :: "db \<Rightarrow> nat \<Rightarrow> insight_doc list" where
  "insights_by_file d ident = filter (\<lambda>i. i_file i = ident) (db_insights d)"

section \<open>Schema validation (models/File.js, models/AiInsight.js)\<close>

text \<open>
  Mongoose validates a document when it is saved. A \<open>required\<close> string fails when it is
  missing or empty; an \<open>enum\<close> accepts a missing value and otherwise only a listed one;
  \<open>min\<close> and \<open>max\<close> bound a number. A \<open>save\<close> that fails validation throws.
\<close>

definition required_str :: "jstring option \<Rightarrow> bool" where
  "required_str v = (case v of None \<Rightarrow> False | Some s \<Rightarrow> s \<noteq> [])"

definition enum_ok :: "jstring list \<Rightarrow> jstring option \<Rightarrow> bool" where
  "enum_ok vals v = (case v of None \<Rightarrow> True | Some s \<Rightarrow> s \<in> set vals)"

definition finding_statuses :: "jstring list" where
  "finding_statuses = [js ''normal'', js ''abnormal'', js ''critical'', js ''borderline'']"

definition severities :: "jstring list" where
  "severities = [js ''low'', js ''medium'', js ''high'', js ''critical'']"

definition question_categories :: "jstring list" where
  "question_categories =
     [js ''general'', js ''medication'', js ''lifestyle'', js ''follow_up'', js ''symptoms'']"

definition priorities :: "jstring list" where
  "priorities = [js ''low'', js ''medium'', js ''high'']"

definition lifestyle_types :: "jstring list" where
  "lifestyle_types =
     [js ''diet'', js ''exercise'', js ''sleep'', js ''stress'', js ''hydration'', js ''other'']"

definition urgencies :: "jstring list" where
  "urgencies = [js ''routine'', js ''soon'', js ''urgent'', js ''emergency'']"

definition follow_up_types :: "jstring list" where
  "follow_up_types =
     [js ''test'', js ''consultation'', js ''medication_review'', js ''lifestyle_check'']"

definition report_types :: "jstring list" where
  "report_types = [js ''Blood Test'', js ''X-Ray'', js ''MRI Scan'', js ''CT Scan'',
     js ''Ultrasound'', js ''ECG'', js ''Prescription'', js ''Doctor Consultation'', js ''Other'']"

definition recommendations_valid :: "recommendations \<Rightarrow> bool" where
  "recommendations_valid r =
     (list_all (\<lambda>l. enum_ok lifestyle_types (lr_type l) \<and> enum_ok priorities (lr_priority l))
        (lifestyle r)
      \<and> list_all (\<lambda>m. enum_ok urgencies (mr_urgency m)) (medical r))"

definition confidence_valid :: "rat \<Rightarrow> bool" where
  "confidence_valid c = (0 \<le> c \<and> c \<le> 100)"

text \<open>The AiInsight schema.\<close>

definition insight_valid :: "insight_doc \<Rightarrow> bool" where
  "insight_valid i =
     ((case i_summary i of
         None \<Rightarrow> False
       | Some s \<Rightarrow> required_str (english s) \<and> required_str (urdu s))
      \<and> list_all (\<lambda>k. required_str (kf_parameter k) \<and> required_str (kf_value k)
            \<and> required_str (kf_status k) \<and> enum_ok finding_statuses (kf_status k))
          (i_keyFindings i)
      \<and> list_all (\<lambda>a. enum_ok severities (av_severity a)) (i_abnormalValues i)
      \<and> list_all (\<lambda>q. enum_ok question_categories (dq_category q)
            \<and> enum_ok priorities (dq_priority q)) (i_doctorQuestions i)
      \<and> recommendations_valid (i_recommendations i)
      \<and> list_all (\<lambda>r. required_str (rf_level r) \<and> enum_ok priorities (rf_level r))
          (i_riskFactors i)
      \<and> list_all (\<lambda>f. required_str (fu_type f) \<and> enum_ok follow_up_types (fu_type f)
            \<and> required_str (fu_timeframe f) \<and> enum_ok priorities (fu_priority f))
          (i_followUpSuggestions i)
      \<and> confidence_valid (i_confidence i))"

text \<open>The File schema: the analysis snapshots it embeds, its stored files, the document.\<close>

definition snapshot_valid :: "analysis \<Rightarrow> bool" where
  "snapshot_valid a =
     (list_all (\<lambda>k. enum_ok finding_statuses (kf_status k))
        (case keyFindings a of None \<Rightarrow> [] | Some l \<Rightarrow> l)
      \<and> list_all (\<lambda>v. enum_ok severities (av_severity v))
        (case abnormalValues a of None \<Rightarrow> [] | Some l \<Rightarrow> l)
      \<and> (case recommendations a of None \<Rightarrow> True | Some r \<Rightarrow> recommendations_valid r)
      \<and> list_all (\<lambda>q. enum_ok question_categories (dq_category q)
            \<and> enum_ok priorities (dq_priority q))
        (case doctorQuestions a of None \<Rightarrow> [] | Some l \<Rightarrow> l)
      \<and> list_all (\<lambda>r. enum_ok priorities (rf_level r))
        (case riskFactors a of None \<Rightarrow> [] | Some l \<Rightarrow> l)
      \<and> list_all (\<lambda>f. enum_ok follow_up_types (fu_type f) \<and> enum_ok priorities (fu_priority f))
        (case followUpSuggestions a of None \<Rightarrow> [] | Some l \<Rightarrow> l)
      \<and> (case confidence a of None \<Rightarrow> True | Some c \<Rightarrow> confidence_valid c))"

definition stored_file_valid :: "stored_file \<Rightarrow> bool" where
  "stored_file_valid f =
     (originalName f \<noteq> [] \<and> cloudinaryId f \<noteq> [] \<and> url f \<noteq> [] \<and> format f \<noteq> []
      \<and> mimeType f \<noteq> [])"

definition file_valid :: "file_doc \<Rightarrow> bool" where
  "file_valid f =
     (reportType f \<in> set report_types \<and> reportDate f \<noteq> None
      \<and> list_all stored_file_valid (files f) \<and> list_all snapshot_valid (aiAnalysis f))"

section \<open>Creating an Insight from an analysis result (routes/file.js, models/AiInsight.js)\<close>

definition ai_disclaimer_english :: jstring where
  "ai_disclaimer_english = js ''This analysis is generated by AI and is for informational purposes only. Always consult with a qualified healthcare professional for medical advice.''"

definition ai_disclaimer_urdu :: jstring where
  "ai_disclaimer_urdu = js ''Yeh analysis AI ke zariye generate hui hai aur sirf information ke liye hai. Medical advice ke liye hamesha qualified doctor se consult karein.''"

definition medical_disclaimer_english :: jstring where
  "medical_disclaimer_english = js ''This information should not replace professional medical advice, diagnosis, or treatment. Seek immediate medical attention for emergencies.''"

definition medical_disclaimer_urdu :: jstring where
  "medical_disclaimer_urdu = js ''Yeh information professional medical advice, diagnosis ya treatment ka replacement nahi hai. Emergency cases mein immediately doctor se contact karein.''"

definition default_aiDisclaimer :: bilingual where
  "default_aiDisclaimer =
     \<lparr>english = Some ai_disclaimer_english, urdu = Some ai_disclaimer_urdu\<rparr>"

definition default_medicalDisclaimer :: bilingual where
  "default_medicalDisclaimer =
     \<lparr>english = Some medical_disclaimer_english, urdu = Some medical_disclaimer_urdu\<rparr>"

definition default_disclaimers :: disclaimers where
  "default_disclaimers =
     \<lparr>aiDisclaimer = Some default_aiDisclaimer, medicalDisclaimer = Some default_medicalDisclaimer\<rparr>"

text \<open>
  \<open>new Insight({...})\<close> in the upload route. \<open>x || d\<close> takes \<open>d\<close> when \<open>x\<close> is falsy: a missing
  value, and for a number also \<open>0\<close>; an array or an object, empty or not, is truthy. The
  fields \<open>type\<close>, \<open>title\<close> and \<open>language\<close> the route passes are not paths of the schema and
  are not stored.
\<close>

definition new_insight :: "nat \<Rightarrow> nat \<Rightarrow> analysis \<Rightarrow> insight_doc" where
  "new_insight usr file_id a = \<lparr>
     i_user = usr,
     i_file = file_id,
     i_summary = summary a,
     i_keyFindings = (case keyFindings a of None \<Rightarrow> [] | Some l \<Rightarrow> l),
     i_abnormalValues = (case abnormalValues a of None \<Rightarrow> [] | Some l \<Rightarrow> l),
     i_doctorQuestions = (case doctorQuestions a of None \<Rightarrow> [] | Some l \<Rightarrow> l),
     i_recommendations =
       (case recommendations a of None \<Rightarrow> \<lparr>lifestyle = [], medical = []\<rparr> | Some r \<Rightarrow> r),
     i_riskFactors = (case riskFactors a of None \<Rightarrow> [] | Some l \<Rightarrow> l),
     i_followUpSuggestions = (case followUpSuggestions a of None \<Rightarrow> [] | Some l \<Rightarrow> l),
     i_confidence = (case confidence a of None \<Rightarrow> 85 | Some c \<Rightarrow> if c = 0 then 85 else c),
     i_model = js ''gemini-2.5-flash'',
     i_processingTime = (case processingTime a of None \<Rightarrow> 0 | Some t \<Rightarrow> t),
     i_disclaimers = (case disclaimers a of None \<Rightarrow> default_disclaimers | Some d \<Rightarrow> d)\<rparr>"

text \<open>
  The schema declares \<open>disclaimers\<close>, \<open>disclaimers.aiDisclaimer\<close> and
  \<open>disclaimers.medicalDisclaimer\<close> as nested paths (plain objects of leaf paths, not
  subdocuments). Reading a nested path of a Mongoose document gives an object, whether or
  not any leaf below it is set, and every object is truthy.
\<close>

definition nested_path_truthy :: "bilingual option \<Rightarrow> bool" where
  "nested_path_truthy b = True"

text \<open>
  The schema's \<open>pre('save')\<close> hook, with its two tests \<open>!this.disclaimers.aiDisclaimer\<close> and
  \<open>!this.disclaimers.medicalDisclaimer\<close> on nested paths.
\<close>

definition insight_pre_save :: "insight_doc \<Rightarrow> insight_doc" where
  "insight_pre_save i =
     (let d = i_disclaimers i;
          d1 = (if \<not> nested_path_truthy (aiDisclaimer d)
                then d\<lparr>aiDisclaimer := Some default_aiDisclaimer\<rparr> else d);
          d2 = (if \<not> nested_path_truthy (medicalDisclaimer d1)
                then d1\<lparr>medicalDisclaimer := Some default_medicalDisclaimer\<rparr> else d1)
      in i\<lparr>i_disclaimers := d2\<rparr>)"

text \<open>\<open>insight.save()\<close>: \<open>None\<close> when validation throws, else the database with the document.\<close>

definition save_insight :: "db \<Rightarrow> insight_doc \<Rightarrow> db option" where
  "save_insight d i =
     (if insight_valid i
      then Some (d\<lparr>db_insights := db_insights d @ [insight_pre_save i]\<rparr>)
      else None)"

section \<open>Download of a stored file (routes/file.js, GET /:id/download)\<close>

text \<open>
  \<open>parseInt(string)\<close> with no radix: leading white space is skipped, then an optional sign,
  then an optional \<open>0x\<close> or \<open>0X\<close> that selects radix 16, then the longest run of digits of the
  radix. No digit gives \<open>NaN\<close>, which is \<open>None\<close> here.
\<close>

definition js_whitespace :: "16 word \<Rightarrow> bool" where
  "js_whitespace c = (c \<in> set [0x09, 0x0A, 0x0B, 0x0C, 0x0D, 0x20, 0xA0, 0x1680,
      0x2000, 0x2001, 0x2002, 0x2003, 0x2004, 0x2005, 0x2006, 0x2007, 0x2008, 0x2009, 0x200A,
      0x2028, 0x2029, 0x202F, 0x205F, 0x3000, 0xFEFF])"

definition digit_of :: "16 word \<Rightarrow> nat" where
  "digit_of c =
     (let n = unat c in
      if 48 \<le> n \<and> n \<le> 57 then n - 48
      else if 97 \<le> n \<and> n \<le> 122 then n - 87
      else if 65 \<le> n \<and> n \<le> 90 then n - 55
      else 36)"

definition parseInt :: "jstring \<Rightarrow> int option" where
  "parseInt input =
     (let s = dropWhile js_whitespace input;
          neg = (take 1 s = js ''-'');
          s1 = (if take 1 s = js ''+'' \<or> take 1 s = js ''-'' then drop 1 s else s);
          hex = (take 2 s1 = js ''0x'' \<or> take 2 s1 = js ''0X'');
          R = (if hex then 16 else 10);
          s2 = (if hex then drop 2 s1 else s1);
          z = takeWhile (\<lambda>c. digit_of c < R) s2
      in if z = [] then None
         else Some ((if neg then - 1 else 1) * int (foldl (\<lambda>a c. a * R + digit_of c) 0 z)))"

text \<open>
  \<open>parseInt(req.query.index) || 0\<close>: \<open>NaN\<close> and \<open>0\<close> are falsy, so both give \<open>0\<close>. A missing
  parameter is \<open>undefined\<close>, which \<open>parseInt\<close> reads as the string \<open>"undefined"\<close>.
\<close>

definition query_index :: "jstring option \<Rightarrow> int" where
  "query_index q =
     (case parseInt (case q of None \<Rightarrow> js ''undefined'' | Some s \<Rightarrow> s) of
        None \<Rightarrow> 0
      | Some n \<Rightarrow> n)"

text \<open>
  The handler. \<open>find_throws\<close> says whether \<open>File.findOne\<close> throws (a malformed id, the database
  down). \<open>file.files[fileIndex]\<close> with a negative index is \<open>undefined\<close>; reading \<open>.url\<close> of it
  throws a \<open>TypeError\<close>, which the handler's \<open>catch\<close> turns into the 500 answer.
\<close>

definition download :: "bool \<Rightarrow> db \<Rightarrow> nat \<Rightarrow> nat \<Rightarrow> jstring option \<Rightarrow> unit response" where
  "download find_throws d ident usr index =
     (if find_throws then Json 500 False (js ''Failed to download file'') None
      else case findOne_file d ident usr of
             None \<Rightarrow> Json 404 False (js ''File not found'') None
           | Some file \<Rightarrow>
               (let fileIndex = query_index index in
                if int (length (files file)) \<le> fileIndex
                then Json 404 False (js ''File index out of range'') None
                else if fileIndex < 0
                then Json 500 False (js ''Failed to download file'') None
                else Redirect (url (files file ! nat fileIndex))))"

section \<open>Deleting a report (routes/file.js, DELETE /:id)\<close>

text \<open>
  The environment says which of the calls to the outside throw: the lookup, the deletion of
  one stored file from the object storage (by identifier), the deletion of the File document
  and the deletion of the Insight documents. The object storage is the list of the
  identifiers it holds.
\<close>

record delete_env =
  find_throws :: bool
  cloud_delete_throws :: "jstring \<Rightarrow> bool"
  file_delete_throws :: bool
  insight_delete_throws :: bool

fun cloud_delete_all :: "(jstring \<Rightarrow> bool) \<Rightarrow> stored_file list \<Rightarrow> jstring list \<Rightarrow> jstring list" where
  "cloud_delete_all throws [] cloud = cloud"
| "cloud_delete_all throws (f # fs) cloud =
     cloud_delete_all throws fs
       (if throws (cloudinaryId f) then cloud else removeAll (cloudinaryId f) cloud)"

definition delete_file ::
  "delete_env \<Rightarrow> db \<times> jstring list \<Rightarrow> nat \<Rightarrow> nat \<Rightarrow> unit response \<times> (db \<times> jstring list)" where
  "delete_file env st ident usr =
     (if find_throws env then (Json 500 False (js ''Failed to delete file'') None, st)
      else case findOne_file (fst st) ident usr of
             None \<Rightarrow> (Json 404 False (js ''File not found'') None, st)
           | Some file \<Rightarrow>
               (let cloud1 = cloud_delete_all (cloud_delete_throws env) (files file) (snd st) in
                if file_delete_throws env
                then (Json 500 False (js ''Failed to delete file'') None, (fst st, cloud1))
                else
                  (let d1 = findByIdAndDelete (fst st) ident in
                   if insight_delete_throws env
                   then (Json 500 False (js ''Failed to delete file'') None, (d1, cloud1))
                   else (Json 200 True (js ''File deleted successfully'') None,
                         (deleteMany_insights d1 ident, cloud1)))))"

section \<open>Uploading a report (routes/file.js, POST /upload)\<close>

text \<open>
  A file of the multipart request, as multer hands it to the filter and to the handler:
  its name, its MIME type and its size in bytes (the bytes themselves play no part).
\<close>

record multer_file =
  originalname :: jstring
  mimetype :: jstring
  fsize :: nat

text \<open>
  The route's \<open>fileFilter\<close> calls back with \<open>(null, true)\<close> to accept a file and with an
  \<open>Error\<close> to refuse it: \<open>Inr True\<close> and \<open>Inl\<close> of the message.
\<close>

definition fileFilter :: "multer_file \<Rightarrow> jstring + bool" where
  "fileFilter file =
     (if prefix (js ''image/'') (mimetype file) \<or> mimetype file = js ''application/pdf''
      then Inr True
      else Inl (js ''Only images and PDF files are allowed''))"

definition fileSize_limit :: nat where
  "fileSize_limit = 10 * 1024 * 1024"

text \<open>
  \<open>upload.array('files', 5)\<close> is the multer library's middleware, not code of this
  repository; what follows is its documented contract. It takes the files in order. A
  file beyond the field's count is the error \<open>LIMIT_UNEXPECTED_FILE\<close>; an error from the
  filter aborts the request with that error; a file the filter declines without an error
  is skipped; an accepted file whose size reaches \<open>limits.fileSize\<close> is the error
  \<open>LIMIT_FILE_SIZE\<close> (multer 1.4.5-lts reads the parts with busboy 1.x, which stops a file
  and reports it as over the limit as soon as the bytes read equal the limit, so a file of
  exactly \<open>limits.fileSize\<close> bytes is refused like a larger one). On an error the
  middleware calls \<open>next(err)\<close> and the route's handler does not run; otherwise \<open>req.files\<close>
  holds the accepted files.
\<close>

datatype multer_error = LIMIT_FILE_SIZE | LIMIT_UNEXPECTED_FILE | Filter_error jstring

fun multer_array ::
  "nat \<Rightarrow> nat \<Rightarrow> (multer_file \<Rightarrow> jstring + bool) \<Rightarrow> multer_file list \<Rightarrow> multer_error + multer_file list" where
  "multer_array left limit flt [] = Inr []"
| "multer_array left limit flt (f # fs) =
     (if left = 0 then Inl LIMIT_UNEXPECTED_FILE
      else case flt f of
             Inl e \<Rightarrow> Inl (Filter_error e)
           | Inr inc \<Rightarrow>
               if inc \<and> limit \<le> fsize f then Inl LIMIT_FILE_SIZE
               else (case multer_array (left - 1) limit flt fs of
                       Inl e \<Rightarrow> Inl e
                     | Inr r \<Rightarrow> Inr (if inc then f # r else r)))"

text \<open>
  The environment of one request. \<open>store\<close> is what the body of the per-file \<open>try\<close> does up to
  the \<open>push\<close>: the transient copy, \<open>uploadToCloudinary\<close>, the removal of the copy; \<open>None\<close> when
  any of it throws, else the identifier, URL and format the object storage returns (a field
  it leaves out is the empty string: the schema's \<open>required\<close> refuses both alike).
  \<open>parse_date\<close> is \<open>new Date(string)\<close>, \<open>None\<close> for an invalid date. \<open>new_id\<close> is the \<open>_id\<close> the new
  document gets. \<open>analyze\<close> is the outcome of \<open>analyzeMedicalReportFromUrl\<close> for a stored file,
  \<open>None\<close> when the promise rejects.
\<close>

record cloud_result =
  publicId :: jstring
  secure_url :: jstring
  cformat :: jstring

record upload_env =
  store :: "multer_file \<Rightarrow> cloud_result option"
  parse_date :: "jstring \<Rightarrow> int option"
  new_id :: nat
  analyze :: "stored_file \<Rightarrow> analysis option"

record upload_body =
  b_reportType :: "jstring option"
  b_reportDate :: "jstring option"
  b_doctorName :: "jstring option"
  b_hospitalName :: "jstring option"
  b_notes :: "jstring option"

definition process_file :: "upload_env \<Rightarrow> multer_file \<Rightarrow> stored_file option" where
  "process_file env file =
     (case store env file of
        None \<Rightarrow> None
      | Some r \<Rightarrow> Some \<lparr>originalName = originalname file, cloudinaryId = publicId r,
          url = secure_url r, format = cformat r, size = fsize file, mimeType = mimetype file\<rparr>)"

definition analysis_eligible :: "stored_file \<Rightarrow> bool" where
  "analysis_eligible f = (prefix (js ''image/'') (mimeType f) \<or> mimeType f = js ''application/pdf'')"

text \<open>\<open>x || ''\<close> for an optional string.\<close>

definition or_empty :: "jstring option \<Rightarrow> jstring" where
  "or_empty v = (case v of None \<Rightarrow> [] | Some s \<Rightarrow> s)"

text \<open>
  Saving a new File document: \<open>None\<close> when validation throws. Saving a loaded one writes it
  over the document with its id, and throws when that document is gone.
\<close>

definition insert_file :: "db \<Rightarrow> file_doc \<Rightarrow> db option" where
  "insert_file d f =
     (if file_valid f then Some (d\<lparr>db_files := db_files d @ [f]\<rparr>) else None)"

fun replace_first :: "('a \<Rightarrow> bool) \<Rightarrow> 'a \<Rightarrow> 'a list \<Rightarrow> 'a list" where
  "replace_first P y [] = []"
| "replace_first P y (x # xs) = (if P x then y # xs else x # replace_first P y xs)"

definition update_file :: "db \<Rightarrow> file_doc \<Rightarrow> db option" where
  "update_file d f =
     (if file_valid f \<and> list_ex (\<lambda>g. fid g = fid f) (db_files d)
      then Some (d\<lparr>db_files := replace_first (\<lambda>g. fid g = fid f) f (db_files d)\<rparr>)
      else None)"

text \<open>
  The handler, up to its answer. It returns the answer, the database, and what it has
  scheduled: the File document and the stored files whose analysis it queued (nothing when
  it queued none).
\<close>

definition upload_handler ::
  "upload_env \<Rightarrow> nat \<Rightarrow> db \<Rightarrow> upload_body \<Rightarrow> multer_file list
   \<Rightarrow> (file_doc \<times> nat) response \<times> db \<times> (file_doc \<times> stored_file list) option" where
  "upload_handler env usr d body req_files =
     (if req_files = [] then (Json 400 False (js ''No files uploaded'') None, d, None)
      else case (b_reportType body, b_reportDate body) of
        (Some rt, Some rd) \<Rightarrow>
          if rt = [] \<or> rd = []
          then (Json 400 False (js ''Report type and date are required'') None, d, None)
          else
            (let uploadedFiles = List.map_filter (process_file env) req_files;
                 queued = filter analysis_eligible uploadedFiles;
                 fileRecord = \<lparr>fid = new_id env, fuser = usr, reportType = rt,
                    reportDate = parse_date env rd, doctorName = or_empty (b_doctorName body),
                    hospitalName = or_empty (b_hospitalName body),
                    report_notes = or_empty (b_notes body), files = uploadedFiles,
                    aiAnalysis = [], status = Uploaded\<rparr>
             in case insert_file d fileRecord of
                  None \<Rightarrow> (Json 500 False (js ''Upload failed'') None, d, None)
                | Some d1 \<Rightarrow>
                    (Json 200 True (js ''Files uploaded successfully'')
                       (Some (fileRecord, length uploadedFiles)),
                     d1, if queued = [] then None else Some (fileRecord, queued)))
      | _ \<Rightarrow> (Json 400 False (js ''Report type and date are required'') None, d, None))"

text \<open>
  The route: multer first; its error goes to the application's error handler
  (the last \<open>app.use\<close> of the server), which answers 500.
\<close>

definition upload_route ::
  "upload_env \<Rightarrow> nat \<Rightarrow> db \<Rightarrow> upload_body \<Rightarrow> multer_file list
   \<Rightarrow> (file_doc \<times> nat) response \<times> db \<times> (file_doc \<times> stored_file list) option" where
  "upload_route env usr d body fs =
     (case multer_array 5 fileSize_limit fileFilter fs of
        Inl e \<Rightarrow> (Json 500 False (js ''Something went wrong!'') None, d, None)
      | Inr req_files \<Rightarrow> upload_handler env usr d body req_files)"

text \<open>
  The callback of \<open>Promise.all(fileAnalysisPromises).then\<close>, run on the database as it is
  when all analyses have settled. The loop over the valid analyses ends at the first
  \<open>insight.save()\<close> that throws: the surrounding \<open>try\<close> catches it and the callback is over.
\<close>

fun create_insights :: "nat \<Rightarrow> nat \<Rightarrow> analysis list \<Rightarrow> db \<Rightarrow> db" where
  "create_insights usr file_id [] d = d"
| "create_insights usr file_id (a # as) d =
     (if summary a \<noteq> None
      then (case save_insight d (new_insight usr file_id a) of
              None \<Rightarrow> d
            | Some d1 \<Rightarrow> create_insights usr file_id as d1)
      else create_insights usr file_id as d)"

definition analysis_completion :: "nat \<Rightarrow> file_doc \<Rightarrow> analysis option list \<Rightarrow> db \<Rightarrow> db" where
  "analysis_completion usr fileRecord analyses d =
     (let validAnalyses = List.map_filter (\<lambda>a. a) analyses in
      if validAnalyses \<noteq> []
      then (case update_file d (fileRecord\<lparr>aiAnalysis := validAnalyses, status := Analyzed\<rparr>) of
              None \<Rightarrow> d
            | Some d1 \<Rightarrow> create_insights usr (fid fileRecord) validAnalyses d1)
      else d)"

text \<open>The whole flow: the answer first, then the completion of what was scheduled.\<close>

definition upload_flow ::
  "upload_env \<Rightarrow> nat \<Rightarrow> db \<Rightarrow> upload_body \<Rightarrow> multer_file list
   \<Rightarrow> (file_doc \<times> nat) response \<times> db" where
  "upload_flow env usr d body fs =
     (case upload_route env usr d body fs of
        (resp, d1, None) \<Rightarrow> (resp, d1)
      | (resp, d1, Some (fileRecord, queued)) \<Rightarrow>
          (resp, analysis_completion usr fileRecord (map (analyze env) queued) d1))"

text \<open>
  What the loop of the callback adds for a list of valid analyses: one Insight for each
  analysis with a summary, in order, up to the first whose Insight fails validation.
\<close>

definition created_insights :: "nat \<Rightarrow> nat \<Rightarrow> analysis list \<Rightarrow> insight_doc list" where
  "created_insights usr file_id valid =
     map (\<lambda>a. insight_pre_save (new_insight usr file_id a))
       (takeWhile (\<lambda>a. insight_valid (new_insight usr file_id a))
          (filter (\<lambda>a. summary a \<noteq> None) valid))"

section \<open>Parsing the model's response (services/geminiService.js)\<close>

text \<open>
  A JSON value, as \<open>JSON.parse\<close> returns it; an object keeps its members in order.
  \<open>JSON.parse\<close> itself is the language's built-in: the functions below take it as the
  parameter \<open>parse\<close>, with \<open>None\<close> for the \<open>SyntaxError\<close> it throws.
\<close>

datatype json =
  JNull
  | JBool bool
  | JNum rat
  | JStr jstring
  | JArr "json list"
  | JObj "(jstring \<times> json) list"







section \<open>Vitals (models/Vitals.js, routes/vitals.js)\<close>

text \<open>
  A JavaScript number is an IEEE 754 double. A finite double is written as the rational
  number it denotes; the three values that are not finite are kept; the sign of zero is
  left out. Multiplication and division compute the exact result and round it to the
  nearest double, a tie going to the even significand, as the language prescribes:
  \<open>to_double\<close> does the rounding, with 53 bits of significand, the smallest quantum
  \<open>2^-1074\<close>, and infinity from \<open>2^1024\<close> on.
\<close>

datatype jsnumber = Fin rat | PInf | NInf | NaN

function bit_length :: "int \<Rightarrow> int" where
  "bit_length n = (if n \<le> 0 then 0 else 1 + bit_length (n div 2))"
  by pat_completeness auto
termination
  by (relation "measure (\<lambda>n. nat n)") auto

declare bit_length.simps [simp del]

text \<open>The exponent of a positive rational: \<open>2 ^ ilog2 a \<le> a < 2 ^ (ilog2 a + 1)\<close>.\<close>

definition ilog2 :: "rat \<Rightarrow> int" where
  "ilog2 a =
     (if 1 \<le> a then bit_length \<lfloor>a\<rfloor> - 1
      else - bit_length (\<lceil>1 / a\<rceil> - 1))"

definition pow2 :: "int \<Rightarrow> rat" where
  "pow2 e = (if 0 \<le> e then 2 ^ nat e else 1 / 2 ^ nat (- e))"

definition round_half_even :: "rat \<Rightarrow> int" where
  "round_half_even t =
     (let f = \<lfloor>t\<rfloor>; r = t - of_int f
      in if r < 1 / 2 then f
         else if 1 / 2 < r then f + 1
         else if even f then f else f + 1)"

definition to_double :: "rat \<Rightarrow> jsnumber" where
  "to_double x =
     (if x = 0 then Fin 0
      else (let a = \<bar>x\<bar>;
                q = max (ilog2 a - 52) (- 1074);
                m = round_half_even (a / pow2 q)
            in if 1024 < q + bit_length m
               then (if 0 < x then PInf else NInf)
               else Fin ((if 0 < x then 1 else - 1) * of_int m * pow2 q)))"

definition jsign :: "jsnumber \<Rightarrow> int" where
  "jsign x = (case x of Fin a \<Rightarrow> (if a > 0 then 1 else if a < 0 then - 1 else 0)
                | PInf \<Rightarrow> 1 | NInf \<Rightarrow> - 1 | NaN \<Rightarrow> 0)"

definition of_sign :: "int \<Rightarrow> jsnumber" where
  "of_sign s = (if s = 0 then NaN else if s > 0 then PInf else NInf)"

definition js_mul :: "jsnumber \<Rightarrow> jsnumber \<Rightarrow> jsnumber" where
  "js_mul x y =
     (if x = NaN \<or> y = NaN then NaN
      else case (x, y) of
             (Fin a, Fin b) \<Rightarrow> to_double (a * b)
           | _ \<Rightarrow> of_sign (jsign x * jsign y))"

definition js_div :: "jsnumber \<Rightarrow> jsnumber \<Rightarrow> jsnumber" where
  "js_div x y =
     (if x = NaN \<or> y = NaN then NaN
      else case (x, y) of
             (Fin a, Fin b) \<Rightarrow> (if b = 0 then of_sign (jsign x) else to_double (a / b))
           | (Fin a, _) \<Rightarrow> Fin 0
           | (_, Fin b) \<Rightarrow> of_sign (jsign x * (if b < 0 then - 1 else 1))
           | _ \<Rightarrow> NaN)"

text \<open>
  \<open>Math.round\<close>: the nearest integer, a tie going up. The result is exact: a double with a
  fraction is below \<open>2^52\<close> in magnitude, and every integer up to there is a double.
\<close>

definition js_round :: "jsnumber \<Rightarrow> jsnumber" where
  "js_round x = (case x of Fin a \<Rightarrow> Fin (of_int \<lfloor>a + 1 / 2\<rfloor>) | _ \<Rightarrow> x)"

text \<open>A number in a condition: \<open>undefined\<close>, \<open>0\<close> and \<open>NaN\<close> are falsy.\<close>

definition truthy_number :: "jsnumber option \<Rightarrow> bool" where
  "truthy_number v = (case v of None \<Rightarrow> False | Some (Fin a) \<Rightarrow> a \<noteq> 0 | Some NaN \<Rightarrow> False
                        | Some _ \<Rightarrow> True)"

record vitals_value =
  numeric :: "jsnumber option"
  text_value :: "jstring option"
  systolic :: "jsnumber option"
  diastolic :: "jsnumber option"

text \<open>
  What \<open>new Vitals({...})\<close> holds before validation, and a validated and stored document.
  Of the schema's paths the model keeps the user, the type, the value, the unit, the time of
  the reading (milliseconds; \<open>None\<close> in the input is an invalid \<open>Date\<close>), the notes, the
  source and the active flag; the other paths have defaults and no part in what follows.
\<close>

record vitals_input =
  in_user :: nat
  in_type :: "jstring option"
  in_value :: vitals_value
  in_unit :: "jstring option"
  in_recordedAt :: "int option"
  in_notes :: "jstring option"

record vitals_doc =
  v_user :: nat
  v_type :: jstring
  v_value :: vitals_value
  v_unit :: jstring
  recordedAt :: int
  v_notes :: "jstring option"
  v_source :: jstring
  isActive :: bool

definition vital_types :: "jstring list" where
  "vital_types = [js ''blood_pressure'', js ''heart_rate'', js ''temperature'', js ''weight'',
     js ''height'', js ''blood_sugar'', js ''oxygen_saturation'', js ''respiratory_rate'',
     js ''bmi'', js ''waist_circumference'', js ''body_fat_percentage'', js ''sleep_hours'',
     js ''steps'', js ''calories_burned'', js ''water_intake'', js ''mood'', js ''energy_level'',
     js ''pain_level'', js ''stress_level'', js ''other'']"

definition subjective_types :: "jstring list" where
  "subjective_types = [js ''mood'', js ''energy_level'', js ''pain_level'', js ''stress_level'']"

text \<open>The units; the degree sign is the code unit \<open>0xB0\<close>.\<close>

definition vital_units :: "jstring list" where
  "vital_units = [js ''mmHg'', js ''bpm'', [0xB0, 0x43], [0xB0, 0x46], js ''kg'', js ''lbs'',
     js ''cm'', js ''ft'', js ''in'', js ''mg/dL'', js ''mmol/L'', js ''%'', js ''hours'',
     js ''steps'', js ''calories'', js ''liters'', js ''ml'', js ''cups'', js ''scale_1_10'',
     js ''scale_1_5'', js ''text'']"

text \<open>
  Validation of the input against the schema. The \<open>required\<close> functions of the value read
  \<open>this.type\<close>: a missing type is different from every type name, so it requires the numeric
  value and neither the text nor the blood pressure pair.
\<close>

definition numeric_required :: "jstring option \<Rightarrow> bool" where
  "numeric_required ty = (case ty of None \<Rightarrow> True | Some s \<Rightarrow> s \<notin> set subjective_types)"

definition text_required :: "jstring option \<Rightarrow> bool" where
  "text_required ty = (case ty of None \<Rightarrow> False | Some s \<Rightarrow> s \<in> set subjective_types)"

definition pressure_required :: "jstring option \<Rightarrow> bool" where
  "pressure_required ty = (ty = Some (js ''blood_pressure''))"

definition validate_vitals :: "vitals_input \<Rightarrow> vitals_doc option" where
  "validate_vitals i =
     (case (in_type i, in_unit i, in_recordedAt i) of
        (Some ty, Some un, Some tm) \<Rightarrow>
          if ty \<in> set vital_types \<and> un \<in> set vital_units
             \<and> (if numeric_required (in_type i) then numeric (in_value i) \<noteq> None else True)
             \<and> (if text_required (in_type i) then required_str (text_value (in_value i)) else True)
             \<and> (if pressure_required (in_type i)
                  then systolic (in_value i) \<noteq> None \<and> diastolic (in_value i) \<noteq> None
                  else True)
             \<and> (case in_notes i of None \<Rightarrow> True | Some n \<Rightarrow> length n \<le> 500)
          then Some \<lparr>v_user = in_user i, v_type = ty, v_value = in_value i, v_unit = un,
                  recordedAt = tm, v_notes = in_notes i, v_source = js ''manual'',
                  isActive = True\<rparr>
          else None
      | _ \<Rightarrow> None)"

text \<open>
  The \<open>pre('save')\<close> hook. \<open>findOne(...).sort({recordedAt: -1})\<close> is the active height reading
  of the user with the latest time (the first of them when several share it).
\<close>

definition latest_height :: "vitals_doc list \<Rightarrow> nat \<Rightarrow> vitals_doc option" where
  "latest_height coll usr =
     (case filter (\<lambda>d. v_user d = usr \<and> v_type d = js ''height'' \<and> isActive d) coll of
        [] \<Rightarrow> None
      | h # hs \<Rightarrow> Some (foldl (\<lambda>best d. if recordedAt best < recordedAt d then d else best) h hs))"

definition day_ms :: int where
  "day_ms = 24 * 60 * 60 * 1000"

definition bmi_filter :: "nat \<Rightarrow> int \<Rightarrow> vitals_doc \<Rightarrow> bool" where
  "bmi_filter usr t d =
     (v_user d = usr \<and> v_type d = js ''bmi''
      \<and> t - day_ms \<le> recordedAt d \<and> recordedAt d \<le> t + day_ms)"

text \<open>\<open>kg/m\<close> and the superscript two, the code unit \<open>0xB2\<close>.\<close>

definition kg_per_m2 :: jstring where
  "kg_per_m2 = js ''kg/m'' @ [0xB2]"

text \<open>
  The value of the derived reading. The height reading's value is divided by 100 whatever
  its unit is: the source takes it to be in centimetres.
\<close>

definition bmi_of :: "jsnumber \<Rightarrow> jsnumber \<Rightarrow> jsnumber" where
  "bmi_of weight height =
     (let heightInMeters = js_div height (Fin 100);
          bmi = js_div weight (js_mul heightInMeters heightInMeters)
      in js_div (js_round (js_mul bmi (Fin 10))) (Fin 10))"

definition bmi_update :: "nat \<Rightarrow> int \<Rightarrow> jsnumber \<Rightarrow> vitals_doc \<Rightarrow> vitals_doc" where
  "bmi_update usr t v d =
     d\<lparr>v_user := usr, v_type := js ''bmi'',
       v_value := \<lparr>numeric = Some v, text_value = None, systolic = None, diastolic = None\<rparr>,
       v_unit := kg_per_m2, recordedAt := t, v_source := js ''calculated'',
       v_notes := Some (js ''Auto-calculated from weight and height'')\<rparr>"

definition bmi_new :: "nat \<Rightarrow> int \<Rightarrow> jsnumber \<Rightarrow> vitals_doc" where
  "bmi_new usr t v =
     \<lparr>v_user = usr, v_type = js ''bmi'',
      v_value = \<lparr>numeric = Some v, text_value = None, systolic = None, diastolic = None\<rparr>,
      v_unit = kg_per_m2, recordedAt = t,
      v_notes = Some (js ''Auto-calculated from weight and height''),
      v_source = js ''calculated'', isActive = True\<rparr>"

text \<open>
  \<open>findOneAndUpdate(filter, update, {upsert: true})\<close>: the first document that matches is
  updated; when none matches, a new one is inserted.
\<close>

fun findOneAndUpdate :: "('a \<Rightarrow> bool) \<Rightarrow> ('a \<Rightarrow> 'a) \<Rightarrow> 'a \<Rightarrow> 'a list \<Rightarrow> 'a list" where
  "findOneAndUpdate P upd new [] = [new]"
| "findOneAndUpdate P upd new (d # ds) =
     (if P d then upd d # ds else d # findOneAndUpdate P upd new ds)"

text \<open>A number read from a field that may be missing: arithmetic on \<open>undefined\<close> is \<open>NaN\<close>.\<close>

definition number_of :: "jsnumber option \<Rightarrow> jsnumber" where
  "number_of v = (case v of None \<Rightarrow> NaN | Some x \<Rightarrow> x)"

text \<open>
  The \<open>pre('save')\<close> hook, on the collection as a list in insertion order. The update is
  taken to go through. What the update does with a value that is \<open>NaN\<close> is left out: the
  computed value is never \<open>NaN\<close> when the weight is a finite number other than zero and the
  height value is finite, which is what the properties below assume.
\<close>

definition vitals_pre_save :: "vitals_doc list \<Rightarrow> vitals_doc \<Rightarrow> vitals_doc list" where
  "vitals_pre_save coll this =
     (if v_type this = js ''weight''
      then (case latest_height coll (v_user this) of
              None \<Rightarrow> coll
            | Some heightVital \<Rightarrow>
                if truthy_number (numeric (v_value this))
                then (let bmi = bmi_of (number_of (numeric (v_value this)))
                                  (number_of (numeric (v_value heightVital)))
                      in findOneAndUpdate (bmi_filter (v_user this) (recordedAt this))
                           (bmi_update (v_user this) (recordedAt this) bmi)
                           (bmi_new (v_user this) (recordedAt this) bmi) coll)
                else coll)
      else coll)"

text \<open>Saving a validated document: the hook, then the document itself.\<close>

definition save_vitals :: "vitals_doc list \<Rightarrow> vitals_doc \<Rightarrow> vitals_doc list" where
  "save_vitals coll this = vitals_pre_save coll this @ [this]"

text \<open>The BMI readings of a user, and those in the window around a time.\<close>

definition bmi_rows :: "nat \<Rightarrow> vitals_doc list \<Rightarrow> vitals_doc list" where
  "bmi_rows usr coll = filter (\<lambda>d. v_user d = usr \<and> v_type d = js ''bmi'') coll"

definition bmi_in_window :: "nat \<Rightarrow> int \<Rightarrow> vitals_doc list \<Rightarrow> vitals_doc list" where
  "bmi_in_window usr t coll = filter (bmi_filter usr t) coll"

text \<open>
  The \<open>formattedValue\<close> virtual. A template literal writes a number with \<open>Number::toString\<close>:
  an integer below \<open>10^21\<close> in magnitude is its decimal digits; \<open>fmt\<close> stands for what it
  writes for the other finite numbers. A missing value is written \<open>undefined\<close>.
\<close>

function dec_digits :: "nat \<Rightarrow> jstring" where
  "dec_digits n =
     (if n < 10 then [of_nat (48 + n)]
      else dec_digits (n div 10) @ [of_nat (48 + n mod 10)])"
  by pat_completeness auto
termination
  by (relation "measure (\<lambda>n. n)") auto

declare dec_digits.simps [simp del]

definition js_number_string :: "(rat \<Rightarrow> jstring) \<Rightarrow> jsnumber \<Rightarrow> jstring" where
  "js_number_string fmt x =
     (case x of
        Fin a \<Rightarrow>
          if of_int \<lfloor>a\<rfloor> = a \<and> \<bar>a\<bar> < 10 ^ 21
          then (if a < 0 then js ''-'' @ dec_digits (nat \<lfloor>- a\<rfloor>) else dec_digits (nat \<lfloor>a\<rfloor>))
          else fmt a
      | PInf \<Rightarrow> js ''Infinity''
      | NInf \<Rightarrow> js ''-Infinity''
      | NaN \<Rightarrow> js ''NaN'')"

definition template_number :: "(rat \<Rightarrow> jstring) \<Rightarrow> jsnumber option \<Rightarrow> jstring" where
  "template_number fmt v =
     (case v of None \<Rightarrow> js ''undefined'' | Some x \<Rightarrow> js_number_string fmt x)"

definition formattedValue :: "(rat \<Rightarrow> jstring) \<Rightarrow> vitals_doc \<Rightarrow> jstring" where
  "formattedValue fmt this =
     (if v_type this = js ''blood_pressure''
      then template_number fmt (systolic (v_value this)) @ js ''/''
           @ template_number fmt (diastolic (v_value this)) @ js '' '' @ v_unit this
      else if numeric (v_value this) \<noteq> None
      then template_number fmt (numeric (v_value this)) @ js '' '' @ v_unit this
      else (case text_value (v_value this) of
              None \<Rightarrow> js ''N/A''
            | Some s \<Rightarrow> if s \<noteq> [] then s else js ''N/A''))"

text \<open>
  The body of \<open>POST /api/vitals\<close> as the route reads it: the measurements (any JSON value)
  and the two strings. The route passes \<open>user\<close>, \<open>bloodPressure\<close>, \<open>heartRate\<close>,
  \<open>temperature\<close>, \<open>weight\<close>, \<open>height\<close>, \<open>bloodSugar\<close>, \<open>oxygenSaturation\<close>, \<open>recordedAt\<close> and
  \<open>notes\<close> to \<open>new Vitals\<close>. Only \<open>user\<close>, \<open>recordedAt\<close> and \<open>notes\<close> are paths of the schema;
  a document keeps nothing of the others, and the route sets neither \<open>type\<close>, \<open>value\<close> nor
  \<open>unit\<close>.
\<close>

record vitals_body =
  vb_bloodPressure :: "json option"
  vb_heartRate :: "json option"
  vb_temperature :: "json option"
  vb_weight :: "json option"
  vb_height :: "json option"
  vb_bloodSugar :: "json option"
  vb_oxygenSaturation :: "json option"
  vb_recordedAt :: "jstring option"
  vb_notes :: "jstring option"

definition route_vitals :: "(jstring \<Rightarrow> int option) \<Rightarrow> nat \<Rightarrow> vitals_body \<Rightarrow> jstring \<Rightarrow> vitals_input" where
  "route_vitals date usr body recorded =
     \<lparr>in_user = usr, in_type = None,
      in_value = \<lparr>numeric = None, text_value = None, systolic = None, diastolic = None\<rparr>,
      in_unit = None, in_recordedAt = date recorded, in_notes = Some (or_empty (vb_notes body))\<rparr>"

definition post_vitals ::
  "(jstring \<Rightarrow> int option) \<Rightarrow> nat \<Rightarrow> vitals_doc list \<Rightarrow> vitals_body
   \<Rightarrow> vitals_doc response \<times> vitals_doc list" where
  "post_vitals date usr coll body =
     (case vb_recordedAt body of
        None \<Rightarrow> (Json 400 False (js ''Recorded date and time are required'') None, coll)
      | Some recorded \<Rightarrow>
          if recorded = []
          then (Json 400 False (js ''Recorded date and time are required'') None, coll)
          else (case validate_vitals (route_vitals date usr body recorded) of
                  None \<Rightarrow> (Json 500 False (js ''Failed to record vitals'') None, coll)
                | Some vitals \<Rightarrow>
                    (Json 201 True (js ''Vitals recorded successfully'') (Some vitals),
                     save_vitals coll vitals)))"

section \<open>Sample documents\<close>

text \<open>Concrete documents on which the theorems below are evaluated.\<close>

definition sample_pdf :: stored_file where
  "sample_pdf = \<lparr>originalName = js ''report.pdf'', cloudinaryId = js ''u1_1_abc'',
     url = js ''https://res.cloudinary.com/x/report.pdf'', format = js ''pdf'', size = 2048,
     mimeType = js ''application/pdf''\<rparr>"

definition sample_png :: stored_file where
  "sample_png = \<lparr>originalName = js ''scan.png'', cloudinaryId = js ''u1_2_def'',
     url = js ''https://res.cloudinary.com/x/scan.png'', format = js ''png'', size = 4096,
     mimeType = js ''image/png''\<rparr>"

definition sample_file :: file_doc where
  "sample_file = \<lparr>fid = 7, fuser = 1, reportType = js ''Blood Test'', reportDate = Some 0,
     doctorName = [], hospitalName = [], report_notes = [],
     files = [sample_pdf, sample_png], aiAnalysis = [], status = Analyzed\<rparr>"

definition sample_insight :: "nat \<Rightarrow> insight_doc" where
  "sample_insight f = \<lparr>i_user = 1, i_file = f,
     i_summary = Some \<lparr>english = Some (js ''ok''), urdu = Some (js ''theek'')\<rparr>,
     i_keyFindings = [], i_abnormalValues = [], i_doctorQuestions = [],
     i_recommendations = \<lparr>lifestyle = [], medical = []\<rparr>,
     i_riskFactors = [], i_followUpSuggestions = [], i_confidence = 85,
     i_model = js ''gemini-2.5-flash'', i_processingTime = 0,
     i_disclaimers = \<lparr>aiDisclaimer = None, medicalDisclaimer = None\<rparr>\<rparr>"

definition sample_db :: db where
  "sample_db = \<lparr>db_files = [sample_file],
     db_insights = [sample_insight 7, sample_insight 8, sample_insight 7]\<rparr>"

definition sample_analysis :: analysis where
  "sample_analysis = \<lparr>summary = Some \<lparr>english = Some (js ''All values normal''),
        urdu = Some (js ''Sab theek hai'')\<rparr>,
     keyFindings = None, abnormalValues = None, doctorQuestions = None, recommendations = None,
     riskFactors = None, followUpSuggestions = None, confidence = None,
     processingTime = Some 1200, disclaimers = None\<rparr>"

definition own_aiDisclaimer :: bilingual where
  "own_aiDisclaimer = \<lparr>english = Some (js ''Generated by a model''), urdu = Some (js ''Model ka jawab'')\<rparr>"

definition one_block_analysis :: analysis where
  "one_block_analysis = sample_analysis\<lparr>disclaimers :=
     Some \<lparr>aiDisclaimer = Some own_aiDisclaimer, medicalDisclaimer = None\<rparr>\<rparr>"

definition no_block_analysis :: analysis where
  "no_block_analysis = sample_analysis\<lparr>disclaimers :=
     Some \<lparr>aiDisclaimer = None, medicalDisclaimer = None\<rparr>\<rparr>"

definition bare_analysis :: analysis where
  "bare_analysis = \<lparr>summary = None,
     keyFindings = None, abnormalValues = None, doctorQuestions = None, recommendations = None,
     riskFactors = None, followUpSuggestions = None, confidence = Some 90,
     processingTime = Some 800, disclaimers = None\<rparr>"

definition uploaded_file :: file_doc where
  "uploaded_file = sample_file\<lparr>status := Uploaded\<rparr>"

definition uploaded_db :: db where
  "uploaded_db = \<lparr>db_files = [uploaded_file], db_insights = []\<rparr>"

definition pdf_upload :: multer_file where
  "pdf_upload = \<lparr>originalname = js ''report.pdf'', mimetype = js ''application/pdf'', fsize = 2048\<rparr>"


definition sample_body :: upload_body where
  "sample_body = \<lparr>b_reportType = Some (js ''Blood Test''), b_reportDate = Some (js ''2024-01-15''),
     b_doctorName = None, b_hospitalName = None, b_notes = None\<rparr>"

definition sample_env :: upload_env where
  "sample_env = \<lparr>
     store = (\<lambda>f. Some \<lparr>publicId = js ''u1_1_abc'',
                secure_url = js ''https://res.cloudinary.com/x/report.pdf'', cformat = js ''pdf''\<rparr>),
     parse_date = (\<lambda>s. Some 1705276800000),
     new_id = 9,
     analyze = (\<lambda>f. None)\<rparr>"

definition empty_db :: db where
  "empty_db = \<lparr>db_files = [], db_insights = []\<rparr>"

definition sample_record :: file_doc where
  "sample_record = \<lparr>fid = 9, fuser = 1, reportType = js ''Blood Test'',
     reportDate = Some 1705276800000, doctorName = [], hospitalName = [], report_notes = [],
     files = [sample_pdf], aiAnalysis = [], status = Uploaded\<rparr>"






definition height_doc :: vitals_doc where
  "height_doc = \<lparr>v_user = 3, v_type = js ''height'',
     v_value = \<lparr>numeric = Some (Fin 170), text_value = None, systolic = None, diastolic = None\<rparr>,
     v_unit = js ''cm'', recordedAt = - 1000, v_notes = None, v_source = js ''manual'',
     isActive = True\<rparr>"

definition weight_at :: "int \<Rightarrow> rat \<Rightarrow> vitals_doc" where
  "weight_at t w = \<lparr>v_user = 3, v_type = js ''weight'',
     v_value = \<lparr>numeric = Some (Fin w), text_value = None, systolic = None, diastolic = None\<rparr>,
     v_unit = js ''kg'', recordedAt = t, v_notes = None, v_source = js ''manual'',
     isActive = True\<rparr>"

definition pressure_doc :: vitals_doc where
  "pressure_doc = \<lparr>v_user = 3, v_type = js ''blood_pressure'',
     v_value = \<lparr>numeric = None, text_value = None, systolic = Some (Fin 120),
                diastolic = Some (Fin 80)\<rparr>,
     v_unit = js ''mmHg'', recordedAt = 0, v_notes = None, v_source = js ''manual'',
     isActive = True\<rparr>"

definition pressure_input :: vitals_input where
  "pressure_input = \<lparr>in_user = 3, in_type = Some (js ''blood_pressure''),
     in_value = \<lparr>numeric = None, text_value = None, systolic = Some (Fin 120),
                 diastolic = Some (Fin 80)\<rparr>,
     in_unit = Some (js ''mmHg''), in_recordedAt = Some 0, in_notes = None\<rparr>"

definition pressure_body :: vitals_body where
  "pressure_body = \<lparr>vb_bloodPressure =
       Some (JObj [(js ''systolic'', JNum 120), (js ''diastolic'', JNum 80)]),
     vb_heartRate = None, vb_temperature = None, vb_weight = None, vb_height = None,
     vb_bloodSugar = None, vb_oxygenSaturation = None,
     vb_recordedAt = Some (js ''2024-01-15T10:00''), vb_notes = None\<rparr>"

chapter \<open>Properties\<close>

section \<open>The rate limiter admits at most \<open>maxAttempts\<close> requests per window\<close>

lemma limiter_run_length: "length (limiter_run m w st qs) = length qs"
  by (induction qs arbitrary: st) auto

lemma limiter_state_snoc:
  "limiter_state m w st (qs @ [q]) =
     snd (sensitiveOperationLimit m w (limiter_state m w st qs) (fst q) (snd q))"
  by (induction qs arbitrary: st) auto

lemma limiter_run_snoc:
  "limiter_run m w st (qs @ [q]) =
     limiter_run m w st qs @ [fst (sensitiveOperationLimit m w (limiter_state m w st qs) (fst q) (snd q))]"
  by (induction qs arbitrary: st) auto

lemma admitted_snoc:
  "length resps = length reqs \<Longrightarrow>
   admitted k (reqs @ [q]) (resps @ [r]) =
     admitted k reqs resps @ (if fst q = k \<and> r = CallNext then [snd q] else [])"
  by (simp add: admitted_def)

lemma admitted_subset: "set (admitted k reqs resps) \<subseteq> snd ` set reqs"
  unfolding admitted_def by (auto dest!: set_zip_leftD) 

lemma filter_filter_window:
  fixes c :: int
  shows "c \<le> now \<Longrightarrow> filter (\<lambda>t. now - w < t) (filter (\<lambda>t. c - w < t) xs) = filter (\<lambda>t. now - w < t) xs"
  by (induction xs) auto

lemma length_filter_mono:
  "(\<And>x. x \<in> set xs \<Longrightarrow> P x \<Longrightarrow> Q x) \<Longrightarrow> length (filter P xs) \<le> length (filter Q xs)"
  by (induction xs) auto

lemma step_userAttempts:
  assumes inv: "stored_ok m w reqs k" and srt: "sorted (map snd (reqs @ [(k, now)]))"
  shows "(case limiter_state m w Map.empty reqs k of Some ts \<Rightarrow> filter (\<lambda>time. time > now - w) ts | None \<Rightarrow> [])
         = filter (\<lambda>t. now - w < t) (admitted k reqs (limiter_run m w Map.empty reqs))"
proof (cases "limiter_state m w Map.empty reqs k")
  case None
  with inv show ?thesis by (simp add: stored_ok_def)
next
  case (Some ts)
  with inv obtain c where c: "c \<in> snd ` set reqs"
     and ts: "ts = filter (\<lambda>t. c - w < t) (admitted k reqs (limiter_run m w Map.empty reqs))"
    unfolding stored_ok_def by auto
  from srt c have "c \<le> now" by (auto simp: sorted_append)
  then show ?thesis using Some ts by (simp add: filter_filter_window del: filter_filter)
qed

lemma adm_snoc:
  "admitted k (reqs @ [q]) (limiter_run m w Map.empty (reqs @ [q])) = admitted k reqs (limiter_run m w Map.empty reqs) @
     (if fst q = k \<and> fst (sensitiveOperationLimit m w (limiter_state m w Map.empty reqs) (fst q) (snd q)) = CallNext
      then [snd q] else [])"
  by (simp add: limiter_run_snoc admitted_snoc limiter_run_length)

lemma stored_ok_step:
  assumes w: "0 < w" and inv: "\<And>k. stored_ok m w reqs k" and srt: "sorted (map snd (reqs @ [q]))"
  shows "stored_ok m w (reqs @ [q]) k"
proof -
  obtain k0 now where q: "q = (k0, now)" by (cases q)
  let ?st = "limiter_state m w Map.empty reqs"
  let ?ua = "filter (\<lambda>t. now - w < t) (admitted k0 reqs (limiter_run m w Map.empty reqs))"
  have ua: "(case ?st k0 of Some ts \<Rightarrow> filter (\<lambda>time. time > now - w) ts | None \<Rightarrow> []) = ?ua"
    using step_userAttempts[OF inv[of k0]] srt q by simp
  show ?thesis
  proof (cases "k = k0")
    case False
    have "limiter_state m w Map.empty (reqs @ [q]) k = ?st k"
      using False by (simp add: limiter_state_snoc q sensitiveOperationLimit_def Let_def)
    moreover have "admitted k (reqs @ [q]) (limiter_run m w Map.empty (reqs @ [q])) = admitted k reqs (limiter_run m w Map.empty reqs)"
      using False by (simp add: adm_snoc q)
    ultimately show ?thesis using inv[of k] unfolding stored_ok_def
      by (auto split: option.splits)
  next
    case True
    show ?thesis
    proof (cases "m \<le> int (length ?ua)")
      case rej: True
      have "limiter_state m w Map.empty (reqs @ [q]) k = Some ?ua"
        using True rej ua by (simp add: limiter_state_snoc q sensitiveOperationLimit_def Let_def)
      moreover have "admitted k (reqs @ [q]) (limiter_run m w Map.empty (reqs @ [q])) = admitted k reqs (limiter_run m w Map.empty reqs)"
        using True rej ua by (simp add: adm_snoc q sensitiveOperationLimit_def Let_def)
      ultimately show ?thesis unfolding stored_ok_def using True q
        by (auto intro!: exI[of _ now])
    next
      case adm: False
      have "limiter_state m w Map.empty (reqs @ [q]) k = Some (?ua @ [now])"
        using True adm ua by (simp add: limiter_state_snoc q sensitiveOperationLimit_def Let_def)
      moreover have "admitted k (reqs @ [q]) (limiter_run m w Map.empty (reqs @ [q])) = admitted k reqs (limiter_run m w Map.empty reqs) @ [now]"
        using True adm ua by (simp add: adm_snoc q sensitiveOperationLimit_def Let_def)
      ultimately show ?thesis unfolding stored_ok_def using True q w
        by (auto intro!: exI[of _ now])
    qed
  qed
qed

lemma bound_ok_step:
  assumes inv: "\<And>k. stored_ok m w reqs k" and bnd: "bound_ok m w reqs k"
    and srt: "sorted (map snd (reqs @ [q]))"
  shows "bound_ok m w (reqs @ [q]) k"
proof -
  obtain k0 now where q: "q = (k0, now)" by (cases q)
  let ?st = "limiter_state m w Map.empty reqs"
  let ?ua = "filter (\<lambda>t. now - w < t) (admitted k0 reqs (limiter_run m w Map.empty reqs))"
  have ua: "(case ?st k0 of Some ts \<Rightarrow> filter (\<lambda>time. time > now - w) ts | None \<Rightarrow> []) = ?ua"
    using step_userAttempts[OF inv[of k0]] srt q by simp
  show ?thesis
  proof (cases "k = k0 \<and> \<not> m \<le> int (length ?ua)")
    case False
    have "admitted k (reqs @ [q]) (limiter_run m w Map.empty (reqs @ [q])) = admitted k reqs (limiter_run m w Map.empty reqs)"
      using False ua by (auto simp add: adm_snoc q sensitiveOperationLimit_def Let_def)
    then show ?thesis using bnd by (simp add: bound_ok_def)
  next
    case True
    then have k: "k = k0" and lt: "\<not> m \<le> int (length ?ua)" by auto
    have eq: "admitted k0 (reqs @ [q]) (limiter_run m w Map.empty (reqs @ [q])) = admitted k0 reqs (limiter_run m w Map.empty reqs) @ [now]"
      using lt ua by (simp add: adm_snoc q sensitiveOperationLimit_def Let_def)
    have "length (filter (in_window a w) (admitted k0 (reqs @ [q]) (limiter_run m w Map.empty (reqs @ [q])))) \<le> nat m" for a
    proof (cases "in_window a w now")
      case False
      then show ?thesis using bnd by (simp add: eq bound_ok_def k)
    next
      case inw: True
      have "length (filter (in_window a w) (admitted k0 reqs (limiter_run m w Map.empty reqs))) \<le> length ?ua"
        using inw by (intro length_filter_mono) (auto simp: in_window_def)
      then show ?thesis using lt inw by (simp add: eq)
    qed
    then show ?thesis unfolding bound_ok_def k by blast
  qed
qed

lemma limiter_invariant:
  assumes w: "0 < w" and srt: "sorted (map snd reqs)"
  shows "stored_ok m w reqs k \<and> bound_ok m w reqs k"
  using srt
proof (induction reqs arbitrary: k rule: rev_induct)
  case Nil
  then show ?case by (simp add: stored_ok_def bound_ok_def admitted_def)
next
  case (snoc q reqs)
  from snoc.prems have srt': "sorted (map snd reqs)" by (simp add: sorted_append)
  have ih: "\<And>k. stored_ok m w reqs k" "\<And>k. bound_ok m w reqs k"
    using snoc.IH[OF srt'] by auto
  show ?case
    using stored_ok_step[OF w ih(1) snoc.prems] bound_ok_step[OF ih(1) ih(2) snoc.prems] by simp
qed


lemma admitted_Cons:
  "admitted k (q # reqs) (r # resps) =
     (if fst q = k \<and> r = CallNext then [snd q] else []) @ admitted k reqs resps"
  by (simp add: admitted_def)

lemma sorted_admitted:
  "sorted (map snd reqs) \<Longrightarrow> sorted (admitted k reqs resps)"
proof (induction reqs arbitrary: resps)
  case Nil
  then show ?case by (simp add: admitted_def)
next
  case (Cons q reqs)
  show ?case
  proof (cases resps)
    case Nil
    then show ?thesis by (simp add: admitted_def)
  next
    case (Cons r rs)
    have "snd q \<le> t" if "t \<in> set (admitted k reqs rs)" for t
      using that admitted_subset[of k reqs rs] Cons.prems by auto
    then show ?thesis using Cons Cons.IH[of rs] Cons.prems
      by (auto simp: admitted_Cons)
  qed
qed

lemma ceiling_ms_to_s: "\<lceil>rat_of_int x / 1000\<rceil> = - ((- x) div 1000)"
  using ceiling_divide_eq_div[of x 1000, where ?'a = rat] by simp

lemma retry_after_div:
  "retry_after ua w now =
     (case ua of [] \<Rightarrow> None | t # _ \<Rightarrow> Some (- ((- (t + w - now)) div 1000)))"
proof (cases ua)
  case Nil
  then show ?thesis by (simp add: retry_after_def)
next
  case (Cons t ts)
  have "\<lceil>rat_of_int (t + w - now) / 1000\<rceil> = - ((- (t + w - now)) div 1000)"
    by (rule ceiling_ms_to_s)
  then show ?thesis using Cons by (simp only: retry_after_def list.case)
qed

lemma sorted_filter_hd_Min:
  fixes xs :: "int list"
  assumes "sorted xs" "xs \<noteq> []"
  shows "hd xs = Min (set xs)"
  using assms by (cases xs) (auto intro!: Min_eqI[symmetric])

text \<open>
  Claim C8. Requests arrive in time order, each with its identity key. For every key and every
  window \<open>(a, a + windowMs]\<close> of \<open>windowMs\<close> milliseconds, at most \<open>maxAttempts\<close> requests of
  that key were admitted in the window. And a request that arrives when \<open>maxAttempts\<close>
  (at least one) admitted requests of its key are still inside the window that ends at its
  arrival is answered with status 429 and a \<open>retryAfter\<close> of the seconds, rounded up, until the
  oldest of those leaves the window.
\<close>

theorem sensitiveOperationLimit_sliding_window:
  assumes srt: "sorted (map snd reqs)"
  shows "length (filter (in_window a w) (admitted k reqs (limiter_run m w Map.empty reqs))) \<le> nat m
    \<and> (\<forall>pre now. reqs = pre @ [(k, now)] \<and> 0 < w \<and> 1 \<le> m
          \<and> m \<le> int (length (filter (\<lambda>t. now - w < t) (admitted k pre (limiter_run m w Map.empty pre))))
        \<longrightarrow> last (limiter_run m w Map.empty reqs) =
              Respond 429 (Some \<lceil>rat_of_int
                (Min (set (filter (\<lambda>t. now - w < t) (admitted k pre (limiter_run m w Map.empty pre))))
                   + w - now) / 1000\<rceil>))"
proof (intro conjI allI impI)
  show "length (filter (in_window a w) (admitted k reqs (limiter_run m w Map.empty reqs))) \<le> nat m"
  proof (cases "0 < w")
    case True
    from limiter_invariant[OF True srt, of m k] show ?thesis by (simp add: bound_ok_def)
  next
    case False
    then have "filter (in_window a w) xs = []" for xs
      by (induction xs) (auto simp: in_window_def)
    then show ?thesis by simp
  qed
next
  fix pre now
  assume h: "reqs = pre @ [(k, now)] \<and> 0 < w \<and> 1 \<le> m
     \<and> m \<le> int (length (filter (\<lambda>t. now - w < t) (admitted k pre (limiter_run m w Map.empty pre))))"
  let ?ua = "filter (\<lambda>t. now - w < t) (admitted k pre (limiter_run m w Map.empty pre))"
  from h have reqs: "reqs = pre @ [(k, now)]" and w: "0 < w" and m: "1 \<le> m"
    and full: "m \<le> int (length ?ua)" by auto
  from srt reqs have srt2: "sorted (map snd (pre @ [(k, now)]))" by simp
  then have srt': "sorted (map snd pre)" by (simp add: sorted_append)
  have inv: "stored_ok m w pre k" using limiter_invariant[OF w srt'] by simp
  have ua: "(case limiter_state m w Map.empty pre k of
               Some ts \<Rightarrow> filter (\<lambda>time. time > now - w) ts | None \<Rightarrow> []) = ?ua"
    using step_userAttempts[OF inv srt2] .
  have ne: "?ua \<noteq> []" using full m by auto
  have "sorted (admitted k pre (limiter_run m w Map.empty pre))"
    using srt' by (rule sorted_admitted)
  then have "sorted ?ua" by (rule sorted_wrt_filter)
  then have hd: "hd ?ua = Min (set ?ua)" using ne by (rule sorted_filter_hd_Min)
  have "retry_after ?ua w now = Some \<lceil>rat_of_int (hd ?ua + w - now) / 1000\<rceil>"
    using ne by (cases ?ua) (auto simp: retry_after_def)
  then show "last (limiter_run m w Map.empty reqs) =
      Respond 429 (Some \<lceil>rat_of_int (Min (set ?ua) + w - now) / 1000\<rceil>)"
    using full ua hd reqs
    by (simp add: limiter_run_snoc sensitiveOperationLimit_def Let_def)
qed

theorem sensitiveOperationLimit_sliding_window_witness:
  "sorted (map snd ([(7::nat, 0::int), (7, 100)] @ [(7, 200)]))
   \<and> admitted 7 [(7::nat, 0::int), (7, 100)] (limiter_run 2 1000 Map.empty [(7::nat, 0::int), (7, 100)])
       = [0, 100]
   \<and> (2::int) \<le> int (length (filter (\<lambda>t. 200 - 1000 < t) [0::int, 100]))
   \<and> length (filter (in_window 0 1000)
        (admitted 7 ([(7::nat, 0::int), (7, 100)] @ [(7, 200)])
           (limiter_run 2 1000 Map.empty ([(7::nat, 0::int), (7, 100)] @ [(7, 200)])))) \<le> nat 2
   \<and> last (limiter_run 2 1000 Map.empty ([(7::nat, 0::int), (7, 100)] @ [(7, 200)]))
       = Respond 429 (Some 1)"
proof -
  let ?pre = "[(7::nat, 0::int), (7, 100)]"
  have s: "sorted (map snd (?pre @ [(7, 200)]))" by simp
  have a: "admitted 7 ?pre (limiter_run 2 1000 Map.empty ?pre) = [0, 100]"
    by (simp add: admitted_def sensitiveOperationLimit_def Let_def)
  have c: "(2::int) \<le> int (length (filter (\<lambda>t. 200 - 1000 < t) [0::int, 100]))" by simp
  have e: "\<lceil>rat_of_int (Min (set (filter (\<lambda>t. 200 - 1000 < t) [0::int, 100])) + 1000 - 200) / 1000\<rceil> = 1"
    unfolding ceiling_ms_to_s by simp
  note inst = sensitiveOperationLimit_sliding_window[OF s, of 0 1000 7 2]
  from inst have bound: "length (filter (in_window 0 1000)
        (admitted 7 (?pre @ [(7, 200)]) (limiter_run 2 1000 Map.empty (?pre @ [(7, 200)])))) \<le> nat 2"
    by (rule conjunct1)
  have hyp: "?pre @ [(7, 200)] = ?pre @ [(7, 200)] \<and> (0::int) < 1000 \<and> (1::int) \<le> 2
      \<and> 2 \<le> int (length (filter (\<lambda>t. 200 - 1000 < t)
               (admitted 7 ?pre (limiter_run 2 1000 Map.empty ?pre))))"
    unfolding a using c by simp
  from inst have "\<forall>pre now. ?pre @ [(7, 200)] = pre @ [(7, now)] \<and> (0::int) < 1000 \<and> (1::int) \<le> 2
          \<and> 2 \<le> int (length (filter (\<lambda>t. now - 1000 < t) (admitted 7 pre (limiter_run 2 1000 Map.empty pre))))
        \<longrightarrow> last (limiter_run 2 1000 Map.empty (?pre @ [(7, 200)])) =
              Respond 429 (Some \<lceil>rat_of_int
                (Min (set (filter (\<lambda>t. now - 1000 < t) (admitted 7 pre (limiter_run 2 1000 Map.empty pre))))
                   + 1000 - now) / 1000\<rceil>)"
    by (rule conjunct2)
  from this[rule_format, of ?pre 200, OF hyp]
  have "last (limiter_run 2 1000 Map.empty (?pre @ [(7, 200)])) = Respond 429 (Some 1)"
    unfolding a e .
  with s a c bound show ?thesis by blast
qed

section \<open>The index of a download\<close>

lemma parseInt_undefined: "parseInt (js ''undefined'') = None"
  by (simp add: parseInt_def js_def js_whitespace_def digit_of_def Let_def)

lemma parseInt_zero: "parseInt (js ''0'') = Some 0"
  by (simp add: parseInt_def js_def js_whitespace_def digit_of_def Let_def)

lemma parseInt_minus_one: "parseInt (js ''-1'') = Some (- 1)"
  by (simp add: parseInt_def js_def js_whitespace_def digit_of_def Let_def)

lemma parseInt_abc: "parseInt (js ''abc'') = None"
  by (simp add: parseInt_def js_def js_whitespace_def digit_of_def Let_def)

lemma parseInt_five: "parseInt (js ''5'') = Some 5"
  by (simp add: parseInt_def js_def js_whitespace_def digit_of_def Let_def)

text \<open>
  Claim C10. For a download of an owned File with \<open>K\<close> stored files: a missing index, or one
  that \<open>parseInt\<close> cannot read, is answered as index 0 is; an index that reads as an integer
  of at least \<open>K\<close> is answered 404 "File index out of range"; an index that reads as a negative
  integer passes that check and is answered 500.
\<close>

theorem download_index:
  assumes "findOne_file d ident usr = Some file"
  shows "((index = None \<or> (\<exists>s. index = Some s \<and> parseInt s = None)) \<longrightarrow>
            download False d ident usr index = download False d ident usr (Some (js ''0'')))
       \<and> (\<forall>s n. index = Some s \<and> parseInt s = Some n \<and> int (length (files file)) \<le> n \<longrightarrow>
            download False d ident usr index = Json 404 False (js ''File index out of range'') None)
       \<and> (\<forall>s n. index = Some s \<and> parseInt s = Some n \<and> n < 0 \<longrightarrow>
            download False d ident usr index = Json 500 False (js ''Failed to download file'') None)"
proof (intro conjI allI impI)
  assume "index = None \<or> (\<exists>s. index = Some s \<and> parseInt s = None)"
  then have "query_index index = 0"
    by (auto simp: query_index_def parseInt_undefined)
  moreover have "query_index (Some (js ''0'')) = 0"
    by (simp add: query_index_def parseInt_zero)
  ultimately show "download False d ident usr index = download False d ident usr (Some (js ''0''))"
    using assms by (simp add: download_def)
next
  fix s n
  assume "index = Some s \<and> parseInt s = Some n \<and> int (length (files file)) \<le> n"
  then show "download False d ident usr index = Json 404 False (js ''File index out of range'') None"
    using assms by (simp add: download_def query_index_def)
next
  fix s n
  assume "index = Some s \<and> parseInt s = Some n \<and> n < 0"
  then show "download False d ident usr index = Json 500 False (js ''Failed to download file'') None"
    using assms by (simp add: download_def query_index_def)
qed


theorem download_index_witness:
  "findOne_file sample_db 7 1 = Some sample_file
   \<and> download False sample_db 7 1 None = Redirect (url sample_pdf)
   \<and> download False sample_db 7 1 (Some (js ''abc'')) = Redirect (url sample_pdf)
   \<and> download False sample_db 7 1 (Some (js ''5'')) = Json 404 False (js ''File index out of range'') None
   \<and> download False sample_db 7 1 (Some (js ''-1'')) = Json 500 False (js ''Failed to download file'') None"
proof -
  have f: "findOne_file sample_db 7 1 = Some sample_file"
    by (simp add: findOne_file_def sample_db_def sample_file_def)
  have z: "download False sample_db 7 1 (Some (js ''0'')) = Redirect (url sample_pdf)"
    using f by (simp add: download_def query_index_def parseInt_zero sample_file_def)
  have k: "int (length (files sample_file)) \<le> 5" by (simp add: sample_file_def)
  from download_index[OF f, of None] download_index[OF f, of "Some (js ''abc'')"]
    download_index[OF f, of "Some (js ''5'')"] download_index[OF f, of "Some (js ''-1'')"]
    parseInt_abc parseInt_five parseInt_minus_one f z k
  show ?thesis by simp
qed

section \<open>Deleting a report removes its insights\<close>

lemma delete_first_distinct:
  "distinct (map g xs) \<Longrightarrow> \<forall>x \<in> set (delete_first (\<lambda>x. g x = v) xs). g x \<noteq> v"
  by (induction xs) (auto simp: image_iff)

lemma find_None_if_absent: "\<forall>x \<in> set xs. \<not> P x \<Longrightarrow> find P xs = None"
  by (induction xs) auto

lemma delete_file_response_db_frame:
  "fst (delete_file (env\<lparr>cloud_delete_throws := t\<rparr>) st ident usr) = fst (delete_file env st ident usr)
   \<and> fst (snd (delete_file (env\<lparr>cloud_delete_throws := t\<rparr>) st ident usr))
       = fst (snd (delete_file env st ident usr))"
  by (simp add: delete_file_def Let_def split: option.splits)

text \<open>
  Claim C6. When the delete handler answers with success, no File document with that id
  is left (ids are unique, as \<open>_id\<close> is in the collection), the query for the insights of that
  file is empty, and whether the deletions in the object storage throw changes neither the
  answer nor the database.
\<close>

theorem delete_file_cascade:
  assumes "distinct (map fid (db_files (fst st)))"
    and "success (fst (delete_file env st ident usr))"
  shows "(\<forall>f \<in> set (db_files (fst (snd (delete_file env st ident usr)))). fid f \<noteq> ident)
       \<and> findOne_file (fst (snd (delete_file env st ident usr))) ident usr = None
       \<and> insights_by_file (fst (snd (delete_file env st ident usr))) ident = []
       \<and> (\<forall>t. fst (delete_file (env\<lparr>cloud_delete_throws := t\<rparr>) st ident usr)
                = fst (delete_file env st ident usr)
              \<and> fst (snd (delete_file (env\<lparr>cloud_delete_throws := t\<rparr>) st ident usr))
                = fst (snd (delete_file env st ident usr)))"
proof -
  from assms(2) obtain fl where
    ok: "\<not> find_throws env" "findOne_file (fst st) ident usr = Some fl"
        "\<not> file_delete_throws env" "\<not> insight_delete_throws env"
    by (auto simp: delete_file_def Let_def split: if_splits option.splits)
  let ?d = "deleteMany_insights (findByIdAndDelete (fst st) ident) ident"
  have res: "fst (snd (delete_file env st ident usr)) = ?d"
    using ok by (simp add: delete_file_def Let_def)
  have gone: "\<forall>f \<in> set (db_files ?d). fid f \<noteq> ident"
    using delete_first_distinct[OF assms(1), of ident]
    by (simp add: deleteMany_insights_def findByIdAndDelete_def)
  then have "findOne_file ?d ident usr = None"
    unfolding findOne_file_def by (intro find_None_if_absent) auto
  moreover have "insights_by_file ?d ident = []"
    by (simp add: insights_by_file_def deleteMany_insights_def findByIdAndDelete_def)
  ultimately show ?thesis using gone res delete_file_response_db_frame
    by simp
qed

theorem delete_file_cascade_witness:
  "distinct (map fid (db_files sample_db))
   \<and> success (fst (delete_file
        \<lparr>find_throws = False, cloud_delete_throws = (\<lambda>i. True), file_delete_throws = False,
         insight_delete_throws = False\<rparr> (sample_db, [js ''u1_1_abc'', js ''u1_2_def'']) 7 1))
   \<and> insights_by_file sample_db 7 = [sample_insight 7, sample_insight 7]
   \<and> insights_by_file (fst (snd (delete_file
        \<lparr>find_throws = False, cloud_delete_throws = (\<lambda>i. True), file_delete_throws = False,
         insight_delete_throws = False\<rparr> (sample_db, [js ''u1_1_abc'', js ''u1_2_def'']) 7 1))) 7 = []"
proof -
  let ?env = "\<lparr>find_throws = False, cloud_delete_throws = (\<lambda>i. True), file_delete_throws = False,
         insight_delete_throws = False\<rparr>"
  let ?st = "(sample_db, [js ''u1_1_abc'', js ''u1_2_def''])"
  have d: "distinct (map fid (db_files (fst ?st)))" by (simp add: sample_db_def)
  have s: "success (fst (delete_file ?env ?st 7 1))"
    by (simp add: delete_file_def findOne_file_def sample_db_def sample_file_def Let_def)
  have b: "insights_by_file sample_db 7 = [sample_insight 7, sample_insight 7]"
    by (simp add: insights_by_file_def sample_db_def sample_insight_def)
  from delete_file_cascade[OF d s] d s b show ?thesis by simp
qed

section \<open>Defaults of a created Insight\<close>

lemma default_blocks_nonempty:
  "required_str (english default_aiDisclaimer) \<and> required_str (urdu default_aiDisclaimer)
   \<and> required_str (english default_medicalDisclaimer) \<and> required_str (urdu default_medicalDisclaimer)"
  by (simp add: required_str_def default_aiDisclaimer_def default_medicalDisclaimer_def
      ai_disclaimer_english_def ai_disclaimer_urdu_def medical_disclaimer_english_def
      medical_disclaimer_urdu_def js_def)

lemma pre_save_id: "insight_pre_save i = i"
  by (simp add: insight_pre_save_def nested_path_truthy_def)

lemma pre_save_other_fields:
  "i_keyFindings (insight_pre_save i) = i_keyFindings i
   \<and> i_abnormalValues (insight_pre_save i) = i_abnormalValues i
   \<and> i_doctorQuestions (insight_pre_save i) = i_doctorQuestions i
   \<and> i_recommendations (insight_pre_save i) = i_recommendations i
   \<and> i_riskFactors (insight_pre_save i) = i_riskFactors i
   \<and> i_followUpSuggestions (insight_pre_save i) = i_followUpSuggestions i
   \<and> i_confidence (insight_pre_save i) = i_confidence i
   \<and> i_model (insight_pre_save i) = i_model i
   \<and> i_file (insight_pre_save i) = i_file i
   \<and> i_user (insight_pre_save i) = i_user i"
  by (simp add: insight_pre_save_def Let_def)

text \<open>
  What does hold of the record the route builds: a result without a \<open>disclaimers\<close> object
  gets the two default blocks from the route itself, a list field the result leaves out is
  the empty list, a missing confidence is 85, and the model identifier is the fixed one.
\<close>

lemma new_insight_defaults:
  "(disclaimers a = None \<longrightarrow> i_disclaimers (new_insight usr file_id a) = default_disclaimers)
   \<and> (keyFindings a = None \<longrightarrow> i_keyFindings (new_insight usr file_id a) = [])
   \<and> (abnormalValues a = None \<longrightarrow> i_abnormalValues (new_insight usr file_id a) = [])
   \<and> (doctorQuestions a = None \<longrightarrow> i_doctorQuestions (new_insight usr file_id a) = [])
   \<and> (recommendations a = None \<longrightarrow>
         i_recommendations (new_insight usr file_id a) = \<lparr>lifestyle = [], medical = []\<rparr>)
   \<and> (riskFactors a = None \<longrightarrow> i_riskFactors (new_insight usr file_id a) = [])
   \<and> (followUpSuggestions a = None \<longrightarrow> i_followUpSuggestions (new_insight usr file_id a) = [])
   \<and> (confidence a = None \<longrightarrow> i_confidence (new_insight usr file_id a) = 85)
   \<and> i_model (new_insight usr file_id a) = js ''gemini-2.5-flash''"
  by (simp add: new_insight_def)

lemma one_block_valid: "insight_valid (new_insight 1 7 one_block_analysis)"
  by (simp add: insight_valid_def new_insight_def one_block_analysis_def sample_analysis_def
      required_str_def recommendations_valid_def confidence_valid_def js_def)

lemma no_block_valid: "insight_valid (new_insight 1 7 no_block_analysis)"
  by (simp add: insight_valid_def new_insight_def no_block_analysis_def sample_analysis_def
      required_str_def recommendations_valid_def confidence_valid_def js_def)

text \<open>
  Claim C9 against the code. The \<open>pre('save')\<close> hook never assigns a default block: it
  leaves every Insight as it is. The route supplies the two default blocks only when the
  analysis result has no \<open>disclaimers\<close> object at all. So a result whose \<open>disclaimers\<close> object
  has the AI block only is saved as an Insight without a medical disclaimer block, and a
  result whose \<open>disclaimers\<close> object is empty is saved as an Insight with neither block.
\<close>

theorem created_insight_disclaimer_missing:
  "insight_pre_save i = i
   \<and> save_insight sample_db (new_insight 1 7 one_block_analysis)
       = Some (sample_db\<lparr>db_insights := db_insights sample_db @ [new_insight 1 7 one_block_analysis]\<rparr>)
   \<and> i_disclaimers (new_insight 1 7 one_block_analysis)
       = \<lparr>aiDisclaimer = Some own_aiDisclaimer, medicalDisclaimer = None\<rparr>
   \<and> save_insight sample_db (new_insight 1 7 no_block_analysis)
       = Some (sample_db\<lparr>db_insights := db_insights sample_db @ [new_insight 1 7 no_block_analysis]\<rparr>)
   \<and> i_disclaimers (new_insight 1 7 no_block_analysis)
       = \<lparr>aiDisclaimer = None, medicalDisclaimer = None\<rparr>"
proof -
  have a: "insight_pre_save i = i" for i
    by (simp add: insight_pre_save_def nested_path_truthy_def)
  have b: "i_disclaimers (new_insight 1 7 one_block_analysis)
       = \<lparr>aiDisclaimer = Some own_aiDisclaimer, medicalDisclaimer = None\<rparr>"
    by (simp add: new_insight_def one_block_analysis_def)
  have c: "i_disclaimers (new_insight 1 7 no_block_analysis)
       = \<lparr>aiDisclaimer = None, medicalDisclaimer = None\<rparr>"
    by (simp add: new_insight_def no_block_analysis_def)
  from a b c one_block_valid no_block_valid show ?thesis
    by (simp add: save_insight_def)
qed

section \<open>What the completion of the analyses writes\<close>

lemma create_insights_eq:
  "create_insights usr f as d =
     d\<lparr>db_insights := db_insights d @ created_insights usr f as\<rparr>"
proof (induction as arbitrary: d)
  case Nil
  then show ?case by (simp add: created_insights_def)
next
  case (Cons a as)
  show ?case
  proof (cases "summary a \<noteq> None \<and> \<not> insight_valid (new_insight usr f a)")
    case True
    then show ?thesis by (simp add: created_insights_def save_insight_def)
  next
    case False
    then show ?thesis
      using Cons.IH by (auto simp: created_insights_def save_insight_def)
  qed
qed

lemma find_replace_first:
  "P y \<Longrightarrow> list_ex P xs \<Longrightarrow> find P (replace_first P y xs) = Some y"
  by (induction xs) auto

lemma created_insights_file: "\<forall>i \<in> set (created_insights usr f as). i_file i = f"
  by (auto simp: created_insights_def pre_save_other_fields new_insight_def)

lemma analysis_completion_eq:
  assumes "List.map_filter (\<lambda>a. a) analyses \<noteq> []"
    and "update_file d (fileRecord\<lparr>aiAnalysis := List.map_filter (\<lambda>a. a) analyses,
            status := Analyzed\<rparr>) = Some d1"
  shows "analysis_completion usr fileRecord analyses d =
     d1\<lparr>db_insights := db_insights d1
           @ created_insights usr (fid fileRecord) (List.map_filter (\<lambda>a. a) analyses)\<rparr>"
  using assms by (simp add: analysis_completion_def Let_def create_insights_eq)

lemma uploaded_file_valid_snapshot:
  "file_valid (uploaded_file\<lparr>aiAnalysis := [bare_analysis], status := Analyzed\<rparr>)"
  by (simp add: file_valid_def uploaded_file_def sample_file_def report_types_def
      stored_file_valid_def sample_pdf_def sample_png_def snapshot_valid_def bare_analysis_def
      confidence_valid_def js_def)

text \<open>
  Claim C2, as stated, fails: a single analysis that comes back without a summary makes
  the File analyzed and creates no Insight.
\<close>

theorem analyzed_without_insight:
  "map status (db_files (analysis_completion 1 uploaded_file [Some bare_analysis] uploaded_db))
     = [Analyzed]
   \<and> insights_by_file (analysis_completion 1 uploaded_file [Some bare_analysis] uploaded_db) 7 = []"
proof -
  have u: "update_file uploaded_db (uploaded_file\<lparr>aiAnalysis := [bare_analysis], status := Analyzed\<rparr>)
       = Some \<lparr>db_files = [uploaded_file\<lparr>aiAnalysis := [bare_analysis], status := Analyzed\<rparr>],
               db_insights = []\<rparr>"
    using uploaded_file_valid_snapshot by (simp add: update_file_def uploaded_db_def)
  have c: "created_insights 1 7 [bare_analysis] = []"
    by (simp add: created_insights_def bare_analysis_def)
  have f: "fid uploaded_file = 7" by (simp add: uploaded_file_def sample_file_def)
  have "analysis_completion 1 uploaded_file [Some bare_analysis] uploaded_db
      = \<lparr>db_files = [uploaded_file\<lparr>aiAnalysis := [bare_analysis], status := Analyzed\<rparr>],
         db_insights = []\<rparr>"
    using u c f by (simp add: analysis_completion_def Let_def create_insights_eq List.map_filter_simps)
  then show ?thesis by (simp add: insights_by_file_def)
qed

text \<open>
  Claim C2, amended. The completion step leaves the database as it is when no analysis
  returned a result, and when the File document cannot be written (it is gone, or does not
  validate). When at least one did and the File document is written, the document
  with the File's id is the analyzed one, carrying the returned results, and the insights
  of that file are the earlier ones followed by one Insight for each returned result with a
  summary, in order, up to the first that fails validation: at most as many as there are
  returned results with a summary.
\<close>

theorem analysis_completion_insights:
  "(List.map_filter (\<lambda>a. a) analyses = [] \<longrightarrow> analysis_completion usr fileRecord analyses d = d)
   \<and> (update_file d (fileRecord\<lparr>aiAnalysis := List.map_filter (\<lambda>a. a) analyses,
              status := Analyzed\<rparr>) = None
      \<longrightarrow> analysis_completion usr fileRecord analyses d = d)
   \<and> (List.map_filter (\<lambda>a. a) analyses \<noteq> []
        \<and> update_file d (fileRecord\<lparr>aiAnalysis := List.map_filter (\<lambda>a. a) analyses,
              status := Analyzed\<rparr>) \<noteq> None
      \<longrightarrow> find (\<lambda>g. fid g = fid fileRecord)
              (db_files (analysis_completion usr fileRecord analyses d))
            = Some (fileRecord\<lparr>aiAnalysis := List.map_filter (\<lambda>a. a) analyses, status := Analyzed\<rparr>)
          \<and> insights_by_file (analysis_completion usr fileRecord analyses d) (fid fileRecord)
            = insights_by_file d (fid fileRecord)
              @ created_insights usr (fid fileRecord) (List.map_filter (\<lambda>a. a) analyses)
          \<and> length (created_insights usr (fid fileRecord) (List.map_filter (\<lambda>a. a) analyses))
            \<le> length (filter (\<lambda>a. summary a \<noteq> None) (List.map_filter (\<lambda>a. a) analyses)))"
proof (intro conjI impI)
  assume "List.map_filter (\<lambda>a. a) analyses = []"
  then show "analysis_completion usr fileRecord analyses d = d"
    by (simp add: analysis_completion_def)
next
  assume "update_file d (fileRecord\<lparr>aiAnalysis := List.map_filter (\<lambda>a. a) analyses,
              status := Analyzed\<rparr>) = None"
  then show "analysis_completion usr fileRecord analyses d = d"
    by (simp add: analysis_completion_def Let_def)
next
  let ?valid = "List.map_filter (\<lambda>a. a) analyses"
  let ?rec = "fileRecord\<lparr>aiAnalysis := ?valid, status := Analyzed\<rparr>"
  assume h: "?valid \<noteq> [] \<and> update_file d ?rec \<noteq> None"
  then obtain d1 where d1: "update_file d ?rec = Some d1" by auto
  then have files1: "db_files d1 = replace_first (\<lambda>g. fid g = fid fileRecord) ?rec (db_files d)"
    and ins1: "db_insights d1 = db_insights d"
    and ex: "list_ex (\<lambda>g. fid g = fid fileRecord) (db_files d)"
    by (auto simp: update_file_def split: if_splits)
  have eq: "analysis_completion usr fileRecord analyses d =
      d1\<lparr>db_insights := db_insights d1 @ created_insights usr (fid fileRecord) ?valid\<rparr>"
    using h d1 by (intro analysis_completion_eq) auto
  show "find (\<lambda>g. fid g = fid fileRecord) (db_files (analysis_completion usr fileRecord analyses d))
      = Some ?rec"
    using find_replace_first[of "\<lambda>g. fid g = fid fileRecord" ?rec, OF _ ex]
    by (simp add: eq files1)
  show "insights_by_file (analysis_completion usr fileRecord analyses d) (fid fileRecord)
      = insights_by_file d (fid fileRecord) @ created_insights usr (fid fileRecord) ?valid"
    using created_insights_file[of usr "fid fileRecord" ?valid]
    by (simp add: eq ins1 insights_by_file_def filter_id_conv)
  show "length (created_insights usr (fid fileRecord) ?valid)
      \<le> length (filter (\<lambda>a. summary a \<noteq> None) ?valid)"
    by (simp add: created_insights_def length_takeWhile_le)
qed

lemma uploaded_file_valid_two:
  "file_valid (uploaded_file\<lparr>aiAnalysis := [sample_analysis, bare_analysis], status := Analyzed\<rparr>)"
  by (simp add: file_valid_def uploaded_file_def sample_file_def report_types_def
      stored_file_valid_def sample_pdf_def sample_png_def snapshot_valid_def bare_analysis_def
      sample_analysis_def confidence_valid_def js_def)

lemma sample_insight_valid: "insight_valid (new_insight 1 7 sample_analysis)"
  by (simp add: insight_valid_def new_insight_def sample_analysis_def required_str_def
      recommendations_valid_def confidence_valid_def js_def)

theorem analysis_completion_insights_witness:
  "List.map_filter (\<lambda>a. a) [None :: analysis option] = []
   \<and> analysis_completion 1 uploaded_file [None] uploaded_db = uploaded_db
   \<and> update_file empty_db
        (uploaded_file\<lparr>aiAnalysis := List.map_filter (\<lambda>a. a) [Some sample_analysis],
           status := Analyzed\<rparr>) = None
   \<and> analysis_completion 1 uploaded_file [Some sample_analysis] empty_db = empty_db
   \<and> List.map_filter (\<lambda>a. a) [Some sample_analysis, None, Some bare_analysis] \<noteq> []
   \<and> update_file uploaded_db
        (uploaded_file\<lparr>aiAnalysis := List.map_filter (\<lambda>a. a) [Some sample_analysis, None, Some bare_analysis],
           status := Analyzed\<rparr>) \<noteq> None
   \<and> insights_by_file
        (analysis_completion 1 uploaded_file [Some sample_analysis, None, Some bare_analysis] uploaded_db) 7
      = [insight_pre_save (new_insight 1 7 sample_analysis)]"
proof -
  have m0: "List.map_filter (\<lambda>a. a) [None :: analysis option] = []"
    by (simp add: List.map_filter_simps)
  have m: "List.map_filter (\<lambda>a. a) [Some sample_analysis, None, Some bare_analysis]
      = [sample_analysis, bare_analysis]"
    by (simp add: List.map_filter_simps)
  have f: "fid uploaded_file = 7" by (simp add: uploaded_file_def sample_file_def)
  have u: "update_file uploaded_db
        (uploaded_file\<lparr>aiAnalysis := [sample_analysis, bare_analysis], status := Analyzed\<rparr>) \<noteq> None"
    using uploaded_file_valid_two by (simp add: update_file_def uploaded_db_def)
  have c: "created_insights 1 7 [sample_analysis, bare_analysis]
      = [insight_pre_save (new_insight 1 7 sample_analysis)]"
    using sample_insight_valid
    by (simp add: created_insights_def bare_analysis_def sample_analysis_def)
  have b: "insights_by_file uploaded_db 7 = []"
    by (simp add: insights_by_file_def uploaded_db_def)
  have g: "update_file empty_db
        (uploaded_file\<lparr>aiAnalysis := List.map_filter (\<lambda>a. a) [Some sample_analysis],
           status := Analyzed\<rparr>) = None"
    by (simp add: update_file_def empty_db_def)
  from analysis_completion_insights[where analyses = "[Some sample_analysis]"
      and fileRecord = uploaded_file and d = empty_db and usr = 1] g
  have gone: "analysis_completion 1 uploaded_file [Some sample_analysis] empty_db = empty_db"
    by blast
  from analysis_completion_insights[where analyses = "[None]" and usr = 1
      and fileRecord = uploaded_file and d = uploaded_db]
    analysis_completion_insights[where analyses = "[Some sample_analysis, None, Some bare_analysis]"
      and usr = 1 and fileRecord = uploaded_file and d = uploaded_db]
    m0 m f u c b g gone
  show ?thesis by simp
qed

section \<open>The answer to an upload\<close>

lemma process_file_analyze: "process_file (env\<lparr>analyze := a\<rparr>) = process_file env"
  by (rule ext) (simp add: process_file_def)

lemma upload_handler_analyze:
  "upload_handler (env\<lparr>analyze := a\<rparr>) usr d body fs = upload_handler env usr d body fs"
  by (simp add: upload_handler_def process_file_analyze Let_def split: option.splits)

lemma upload_route_analyze:
  "upload_route (env\<lparr>analyze := a\<rparr>) usr d body fs = upload_route env usr d body fs"
  by (simp add: upload_route_def upload_handler_analyze split: sum.splits)

lemma upload_flow_response:
  "fst (upload_flow env usr d body fs) = fst (upload_route env usr d body fs)"
  by (simp add: upload_flow_def split: prod.splits option.splits)

lemma upload_handler_created:
  assumes "db_files (fst (snd (upload_handler env usr d body fs))) = db_files d @ [r]"
  shows "fst (upload_handler env usr d body fs) =
      Json 200 True (js ''Files uploaded successfully'') (Some (r, length (files r)))
    \<and> status r = Uploaded \<and> aiAnalysis r = []"
  using assms
  by (auto simp: upload_handler_def Let_def insert_file_def
      split: if_splits option.splits prod.splits)

text \<open>
  Claim C7. The answer of the upload flow is the answer the route has produced before
  any analysis is looked at: it is the same whatever the analyses do (succeed, or fail to
  \<open>None\<close>). And when the File document has been created, the answer is the success answer
  with that document, in status uploaded and without analysis, and the number of its
  stored files.
\<close>

theorem upload_response_independent_of_analysis:
  "fst (upload_flow (env\<lparr>analyze := a1\<rparr>) usr d body fs)
     = fst (upload_flow (env\<lparr>analyze := a2\<rparr>) usr d body fs)
   \<and> (\<forall>r. db_files (fst (snd (upload_route env usr d body fs))) = db_files d @ [r] \<longrightarrow>
         fst (upload_flow env usr d body fs) =
           Json 200 True (js ''Files uploaded successfully'') (Some (r, length (files r)))
         \<and> status r = Uploaded \<and> aiAnalysis r = [])"
proof (rule conjI)
  show "fst (upload_flow (env\<lparr>analyze := a1\<rparr>) usr d body fs)
     = fst (upload_flow (env\<lparr>analyze := a2\<rparr>) usr d body fs)"
    by (simp add: upload_flow_response upload_route_analyze)
next
  have "fst (upload_flow env usr d body fs) =
           Json 200 True (js ''Files uploaded successfully'') (Some (r, length (files r)))
         \<and> status r = Uploaded \<and> aiAnalysis r = []"
    if a: "db_files (fst (snd (upload_route env usr d body fs))) = db_files d @ [r]" for r
  proof (cases "multer_array 5 fileSize_limit fileFilter fs")
    case (Inl e)
    with a show ?thesis by (simp add: upload_route_def)
  next
    case (Inr req_files)
    with a upload_handler_created[of env usr d body req_files r] show ?thesis
      by (simp add: upload_flow_response upload_route_def)
  qed
  then show "\<forall>r. db_files (fst (snd (upload_route env usr d body fs))) = db_files d @ [r] \<longrightarrow>
         fst (upload_flow env usr d body fs) =
           Json 200 True (js ''Files uploaded successfully'') (Some (r, length (files r)))
         \<and> status r = Uploaded \<and> aiAnalysis r = []"
    by blast
qed

lemma multer_pdf: "multer_array 5 fileSize_limit fileFilter [pdf_upload] = Inr [pdf_upload]"
  by (simp add: fileFilter_def pdf_upload_def fileSize_limit_def js_def)

lemma sample_upload:
  "upload_route (sample_env\<lparr>analyze := a\<rparr>) 1 empty_db sample_body [pdf_upload] =
     (Json 200 True (js ''Files uploaded successfully'') (Some (sample_record, 1)),
      \<lparr>db_files = [sample_record], db_insights = []\<rparr>,
      Some (sample_record, [sample_pdf]))"
proof -
  have "upload_handler (sample_env\<lparr>analyze := a\<rparr>) 1 empty_db sample_body [pdf_upload] =
     (Json 200 True (js ''Files uploaded successfully'') (Some (sample_record, 1)),
      \<lparr>db_files = [sample_record], db_insights = []\<rparr>,
      Some (sample_record, [sample_pdf]))"
    by (simp add: upload_handler_def sample_body_def Let_def List.map_filter_simps
        process_file_def sample_env_def pdf_upload_def sample_pdf_def or_empty_def
        sample_record_def insert_file_def empty_db_def file_valid_def report_types_def
        stored_file_valid_def analysis_eligible_def js_def)
  then show ?thesis
    by (simp add: upload_route_def multer_pdf del: multer_array.simps)
qed

theorem upload_response_independent_of_analysis_witness:
  "fst (upload_flow (sample_env\<lparr>analyze := (\<lambda>f. None)\<rparr>) 1 empty_db sample_body [pdf_upload])
     = fst (upload_flow (sample_env\<lparr>analyze := (\<lambda>f. Some sample_analysis)\<rparr>) 1 empty_db sample_body [pdf_upload])
   \<and> db_files (fst (snd (upload_route sample_env 1 empty_db sample_body [pdf_upload])))
       = db_files empty_db @ [sample_record]
   \<and> fst (upload_flow sample_env 1 empty_db sample_body [pdf_upload])
       = Json 200 True (js ''Files uploaded successfully'') (Some (sample_record, 1))"
proof -
  have s: "sample_env\<lparr>analyze := (\<lambda>f. None)\<rparr> = sample_env" by (simp add: sample_env_def)
  have c: "db_files (fst (snd (upload_route sample_env 1 empty_db sample_body [pdf_upload])))
       = db_files empty_db @ [sample_record]"
    using sample_upload[of "\<lambda>f. None"] by (simp add: s empty_db_def)
  have l: "length (files sample_record) = 1" by (simp add: sample_record_def)
  from upload_response_independent_of_analysis[where env = sample_env and ?a1.0 = "\<lambda>f. None"
      and usr = 1 and d = empty_db and body = sample_body and fs = "[pdf_upload]"
      and ?a2.0 = "\<lambda>f. Some sample_analysis"] c l
  show ?thesis by simp
qed

section \<open>Uploads with refused files\<close>









section \<open>The parsed response and the fallback\<close>









section \<open>The derived BMI reading\<close>

lemma foau_window_count:
  assumes "P new" "\<And>d. P d \<Longrightarrow> P (upd d)"
  shows "length (filter P (findOneAndUpdate P upd new xs)) = max 1 (length (filter P xs))"
  using assms by (induction xs) auto

lemma foau_rows_count:
  assumes "Q new" "\<And>d. P d \<Longrightarrow> Q d \<and> Q (upd d)"
  shows "length (filter Q (findOneAndUpdate P upd new xs))
       = length (filter Q xs) + (if filter P xs = [] then 1 else 0)"
  using assms by (induction xs) auto

lemma foau_has:
  assumes "R new" "\<And>d. P d \<Longrightarrow> R (upd d)"
  shows "\<exists>b \<in> set (findOneAndUpdate P upd new xs). R b"
  using assms by (induction xs) auto

lemma foau_frame:
  assumes "\<not> H new" "\<And>d. P d \<Longrightarrow> \<not> H d \<and> \<not> H (upd d)"
  shows "filter H (findOneAndUpdate P upd new xs) = filter H xs"
  using assms by (induction xs) auto

lemma type_names_distinct:
  "js ''bmi'' \<noteq> js ''height''" "js ''weight'' \<noteq> js ''height''" "js ''weight'' \<noteq> js ''bmi''"
  by (simp_all add: js_def)

lemma day_ms_nonneg: "0 \<le> day_ms" by (simp add: day_ms_def)

lemma bmi_new_in_window: "bmi_filter usr t (bmi_new usr t v)"
  using day_ms_nonneg by (simp add: bmi_filter_def bmi_new_def)

lemma bmi_update_in_window: "bmi_filter usr t (bmi_update usr t v d)"
  using day_ms_nonneg by (simp add: bmi_filter_def bmi_update_def)

lemma heights_after_pre_save:
  "filter (\<lambda>d. v_user d = usr \<and> v_type d = js ''height'' \<and> isActive d) (vitals_pre_save coll W)
   = filter (\<lambda>d. v_user d = usr \<and> v_type d = js ''height'' \<and> isActive d) coll"
  using type_names_distinct
  by (auto simp: vitals_pre_save_def Let_def bmi_filter_def bmi_new_def bmi_update_def
      intro!: foau_frame split: option.splits)

lemma latest_height_after_save:
  "v_type W = js ''weight'' \<Longrightarrow> latest_height (save_vitals coll W) usr = latest_height coll usr"
  using type_names_distinct
  by (simp add: latest_height_def save_vitals_def heights_after_pre_save)

lemma pre_save_fires:
  assumes "v_type W = js ''weight''" "truthy_number (numeric (v_value W))"
    and "latest_height coll (v_user W) = Some H"
  shows "vitals_pre_save coll W =
     findOneAndUpdate (bmi_filter (v_user W) (recordedAt W))
       (bmi_update (v_user W) (recordedAt W)
          (bmi_of (number_of (numeric (v_value W))) (number_of (numeric (v_value H)))))
       (bmi_new (v_user W) (recordedAt W)
          (bmi_of (number_of (numeric (v_value W))) (number_of (numeric (v_value H))))) coll"
  using assms by (simp add: vitals_pre_save_def Let_def)

lemma weight_not_bmi:
  "v_type W = js ''weight'' \<Longrightarrow> \<not> bmi_filter usr t W \<and> \<not> (v_user W = usr \<and> v_type W = js ''bmi'')"
  using type_names_distinct by (simp add: bmi_filter_def)

lemma save_window_count:
  assumes "v_type W = js ''weight''" "truthy_number (numeric (v_value W))"
    and "latest_height coll (v_user W) = Some H"
  shows "length (bmi_in_window (v_user W) (recordedAt W) (save_vitals coll W))
       = max 1 (length (bmi_in_window (v_user W) (recordedAt W) coll))"
  using weight_not_bmi[OF assms(1)]
  by (simp add: bmi_in_window_def save_vitals_def pre_save_fires[OF assms]
      foau_window_count bmi_new_in_window bmi_update_in_window)

lemma save_rows_count:
  assumes "v_type W = js ''weight''" "truthy_number (numeric (v_value W))"
    and "latest_height coll (v_user W) = Some H"
  shows "length (bmi_rows (v_user W) (save_vitals coll W))
       = length (bmi_rows (v_user W) coll)
         + (if bmi_in_window (v_user W) (recordedAt W) coll = [] then 1 else 0)"
proof -
  let ?Q = "\<lambda>d. v_user d = v_user W \<and> v_type d = js ''bmi''"
  have "length (filter ?Q (findOneAndUpdate (bmi_filter (v_user W) (recordedAt W))
           (bmi_update (v_user W) (recordedAt W) v) (bmi_new (v_user W) (recordedAt W) v) coll))
       = length (filter ?Q coll)
         + (if filter (bmi_filter (v_user W) (recordedAt W)) coll = [] then 1 else 0)" for v
    by (rule foau_rows_count) (simp_all add: bmi_new_def bmi_update_def bmi_filter_def)
  then show ?thesis
    using weight_not_bmi[OF assms(1)]
    by (simp add: bmi_rows_def bmi_in_window_def save_vitals_def pre_save_fires[OF assms])
qed

lemma save_has_bmi:
  assumes "v_type W = js ''weight''" "truthy_number (numeric (v_value W))"
    and "latest_height coll (v_user W) = Some H"
  shows "\<exists>b \<in> set (save_vitals coll W).
           v_user b = v_user W \<and> v_type b = js ''bmi'' \<and> recordedAt b = recordedAt W
           \<and> numeric (v_value b)
               = Some (bmi_of (number_of (numeric (v_value W))) (number_of (numeric (v_value H))))
           \<and> v_unit b = kg_per_m2 \<and> v_source b = js ''calculated''"
proof -
  let ?v = "bmi_of (number_of (numeric (v_value W))) (number_of (numeric (v_value H)))"
  let ?R = "\<lambda>b. v_user b = v_user W \<and> v_type b = js ''bmi'' \<and> recordedAt b = recordedAt W
           \<and> numeric (v_value b) = Some ?v \<and> v_unit b = kg_per_m2 \<and> v_source b = js ''calculated''"
  have "\<exists>b \<in> set (findOneAndUpdate (bmi_filter (v_user W) (recordedAt W))
           (bmi_update (v_user W) (recordedAt W) ?v) (bmi_new (v_user W) (recordedAt W) ?v) coll). ?R b"
    by (rule foau_has) (simp_all add: bmi_new_def bmi_update_def)
  then show ?thesis
    by (auto simp: save_vitals_def pre_save_fires[OF assms])
qed

text \<open>
  The value on two ordinary inputs. For 70 kg and 170 cm it is the double nearest 24.2.
  For 48 kg and 160 cm the exact quotient is 18.75, which rounded to one decimal is 18.8;
  in doubles 1.6 * 1.6 is a little above 2.56, the quotient times ten a little below 187.5,
  and the value is the double nearest 18.7.
\<close>

lemma bmi_70_170: "bmi_of (Fin 70) (Fin 170) = to_double (242 / 10)"
  by code_simp

lemma bmi_48_160: "bmi_of (Fin 48) (Fin 160) = to_double (187 / 10)"
  by code_simp

lemma exact_48_160:
  "of_int \<lfloor>(48::rat) / ((160 / 100) * (160 / 100)) * 10 + 1 / 2\<rfloor> / (10::rat) = 188 / 10"
proof -
  have "\<lfloor>(48::rat) / ((160 / 100) * (160 / 100)) * 10 + 1 / 2\<rfloor> = 188"
    by (rule floor_unique) simp_all
  then show ?thesis by simp
qed

lemma to_double_187_188: "to_double (187 / 10) \<noteq> to_double (188 / 10)"
  by code_simp

lemma to_double_not_NaN: "to_double x \<noteq> NaN"
  by (simp add: to_double_def Let_def)

lemma js_mul_self_not_NaN: "x \<noteq> NaN \<Longrightarrow> js_mul x x \<noteq> NaN"
  by (cases x) (simp_all add: js_mul_def to_double_not_NaN of_sign_def jsign_def)

lemma js_mul_10_not_NaN: "x \<noteq> NaN \<Longrightarrow> js_mul x (Fin 10) \<noteq> NaN"
  by (cases x) (simp_all add: js_mul_def to_double_not_NaN of_sign_def jsign_def)

lemma js_div_number_not_NaN: "x \<noteq> NaN \<Longrightarrow> b \<noteq> 0 \<Longrightarrow> js_div x (Fin b) \<noteq> NaN"
  by (cases x) (simp_all add: js_div_def to_double_not_NaN of_sign_def jsign_def)

lemma js_div_nonzero_not_NaN: "w \<noteq> 0 \<Longrightarrow> y \<noteq> NaN \<Longrightarrow> js_div (Fin w) y \<noteq> NaN"
  by (cases y) (simp_all add: js_div_def to_double_not_NaN of_sign_def jsign_def)

lemma js_round_not_NaN: "x \<noteq> NaN \<Longrightarrow> js_round x \<noteq> NaN"
  by (cases x) (simp_all add: js_round_def)

lemma bmi_of_not_NaN:
  assumes w: "w \<noteq> 0"
  shows "bmi_of (Fin w) (Fin h) \<noteq> NaN"
proof -
  have a: "js_div (Fin h) (Fin 100) \<noteq> NaN" by (rule js_div_number_not_NaN) simp_all
  have b: "js_mul (js_div (Fin h) (Fin 100)) (js_div (Fin h) (Fin 100)) \<noteq> NaN"
    by (rule js_mul_self_not_NaN[OF a])
  have c: "js_div (Fin w) (js_mul (js_div (Fin h) (Fin 100)) (js_div (Fin h) (Fin 100))) \<noteq> NaN"
    by (rule js_div_nonzero_not_NaN[OF w b])
  have d: "js_round (js_mul (js_div (Fin w)
      (js_mul (js_div (Fin h) (Fin 100)) (js_div (Fin h) (Fin 100)))) (Fin 10)) \<noteq> NaN"
    by (rule js_round_not_NaN[OF js_mul_10_not_NaN[OF c]])
  show ?thesis
    unfolding bmi_of_def Let_def by (rule js_div_number_not_NaN[OF d]) simp
qed

text \<open>
  Claim C5, amended. A weight reading whose value \<open>w\<close> is a finite number other than zero
  is saved by a user whose latest active height reading has a finite value \<open>h\<close>. After the
  save there is a BMI reading of the user at the time of the weight reading, with the unit
  kg/m2, the source calculated, and the value the hook computes in double arithmetic,
  \<open>Math.round(w / (h / 100 * (h / 100)) * 10) / 10\<close>: the height value is divided by 100
  whatever the unit of the height reading is, so it is a height in metres only for a
  reading in centimetres. That value is a number or an infinity (for a height of zero),
  never \<open>NaN\<close>, and it need not be the exact quotient rounded to one decimal: for 48 kg and
  160 cm it is the double nearest 18.7, where the exact quotient 18.75 rounds to 18.8. The
  number of the user's BMI readings within 24 hours of that time is the number before the
  save, or one when there was none: exactly one when there was at most one. The save adds
  a BMI reading only when the window held none; so a second weight reading within 24 hours
  of the first adds none.
\<close>

theorem weight_save_upserts_bmi:
  assumes "v_type W = js ''weight''" "numeric (v_value W) = Some (Fin w)" "w \<noteq> 0"
    and "latest_height coll (v_user W) = Some H" "numeric (v_value H) = Some (Fin h)"
  shows "(\<exists>b \<in> set (save_vitals coll W).
            v_user b = v_user W \<and> v_type b = js ''bmi'' \<and> recordedAt b = recordedAt W
            \<and> numeric (v_value b) = Some (bmi_of (Fin w) (Fin h))
            \<and> v_unit b = kg_per_m2 \<and> v_source b = js ''calculated'')
     \<and> bmi_of (Fin w) (Fin h) \<noteq> NaN
     \<and> bmi_of (Fin 48) (Fin 160) = to_double (187 / 10)
     \<and> to_double (187 / 10) \<noteq> to_double (188 / 10)
     \<and> length (bmi_in_window (v_user W) (recordedAt W) (save_vitals coll W))
         = max 1 (length (bmi_in_window (v_user W) (recordedAt W) coll))
     \<and> length (bmi_rows (v_user W) (save_vitals coll W))
         = length (bmi_rows (v_user W) coll)
           + (if bmi_in_window (v_user W) (recordedAt W) coll = [] then 1 else 0)
     \<and> (\<forall>W2 w2. v_type W2 = js ''weight'' \<and> v_user W2 = v_user W
              \<and> numeric (v_value W2) = Some (Fin w2) \<and> w2 \<noteq> 0
              \<and> \<bar>recordedAt W2 - recordedAt W\<bar> \<le> day_ms
           \<longrightarrow> length (bmi_rows (v_user W) (save_vitals (save_vitals coll W) W2))
               = length (bmi_rows (v_user W) (save_vitals coll W)))"
proof -
  from assms(2,3) have tr: "truthy_number (numeric (v_value W))"
    by (simp add: truthy_number_def)
  have nW: "number_of (numeric (v_value W)) = Fin w" and nH: "number_of (numeric (v_value H)) = Fin h"
    using assms(2,5) by (simp_all add: number_of_def)
  have one: "\<exists>b \<in> set (save_vitals coll W).
            v_user b = v_user W \<and> v_type b = js ''bmi'' \<and> recordedAt b = recordedAt W
            \<and> numeric (v_value b) = Some (bmi_of (Fin w) (Fin h))
            \<and> v_unit b = kg_per_m2 \<and> v_source b = js ''calculated''"
    using save_has_bmi[OF assms(1) tr assms(4)] unfolding nW nH .
  have nan: "bmi_of (Fin w) (Fin h) \<noteq> NaN"
    by (rule bmi_of_not_NaN[OF assms(3)])
  have two: "length (bmi_in_window (v_user W) (recordedAt W) (save_vitals coll W))
         = max 1 (length (bmi_in_window (v_user W) (recordedAt W) coll))"
    by (rule save_window_count[OF assms(1) tr assms(4)])
  have three: "length (bmi_rows (v_user W) (save_vitals coll W))
         = length (bmi_rows (v_user W) coll)
           + (if bmi_in_window (v_user W) (recordedAt W) coll = [] then 1 else 0)"
    by (rule save_rows_count[OF assms(1) tr assms(4)])
  have four: "length (bmi_rows (v_user W) (save_vitals (save_vitals coll W) W2))
               = length (bmi_rows (v_user W) (save_vitals coll W))"
    if h: "v_type W2 = js ''weight'' \<and> v_user W2 = v_user W
              \<and> numeric (v_value W2) = Some (Fin w2) \<and> w2 \<noteq> 0
              \<and> \<bar>recordedAt W2 - recordedAt W\<bar> \<le> day_ms" for W2 w2
  proof -
    from h have lh: "latest_height (save_vitals coll W) (v_user W2) = Some H"
      using latest_height_after_save[OF assms(1)] assms(4) by simp
    from one obtain b where b: "b \<in> set (save_vitals coll W)" "v_user b = v_user W"
      "v_type b = js ''bmi''" "recordedAt b = recordedAt W" by blast
    with h have "bmi_filter (v_user W2) (recordedAt W2) b"
      by (auto simp: bmi_filter_def)
    with b(1) have ne: "bmi_in_window (v_user W2) (recordedAt W2) (save_vitals coll W) \<noteq> []"
      by (auto simp: bmi_in_window_def filter_empty_conv)
    from h have a1: "v_type W2 = js ''weight''" and a2: "truthy_number (numeric (v_value W2))"
      by (auto simp: truthy_number_def)
    from save_rows_count[OF a1 a2 lh] ne h show ?thesis by simp
  qed
  from one nan bmi_48_160 to_double_187_188 two three four show ?thesis by blast
qed

lemma sample_latest_height: "latest_height [height_doc] 3 = Some height_doc"
  by (simp add: latest_height_def height_doc_def)

lemma weight_at_fields:
  "v_type (weight_at t w) = js ''weight''" "v_user (weight_at t w) = 3"
  "recordedAt (weight_at t w) = t" "numeric (v_value (weight_at t w)) = Some (Fin w)"
  by (simp_all add: weight_at_def)

lemma height_doc_not_bmi: "\<not> bmi_filter usr t height_doc"
  by (simp add: bmi_filter_def height_doc_def js_def)

lemma weight_at_not_bmi: "\<not> bmi_filter usr t (weight_at t' w)"
  by (simp add: bmi_filter_def weight_at_def js_def)

lemma bmi_new_window:
  "bmi_filter usr t (bmi_new usr' t' v) \<longleftrightarrow> usr' = usr \<and> t - day_ms \<le> t' \<and> t' \<le> t + day_ms"
  by (auto simp: bmi_filter_def bmi_new_def)

lemma weight_truthy: "w \<noteq> 0 \<Longrightarrow> truthy_number (numeric (v_value (weight_at t w)))"
  by (simp add: weight_at_fields truthy_number_def)

text \<open>
  Claim C5, as stated, fails: weight readings saved for the times 0, 30 hours and then 15
  hours leave two BMI readings within 24 hours of the last one.
\<close>

theorem three_weights_two_bmi:
  "length (bmi_in_window 3 54000000
     (save_vitals (save_vitals (save_vitals [height_doc] (weight_at 0 70))
        (weight_at 108000000 71)) (weight_at 54000000 72))) = 2"
proof -
  let ?c1 = "save_vitals [height_doc] (weight_at 0 70)"
  let ?c2 = "save_vitals ?c1 (weight_at 108000000 71)"
  let ?b0 = "bmi_new 3 0 (bmi_of (number_of (Some (Fin 70))) (number_of (numeric (v_value height_doc))))"
  let ?b30 = "bmi_new 3 108000000 (bmi_of (number_of (Some (Fin 71))) (number_of (numeric (v_value height_doc))))"
  have h0: "latest_height [height_doc] (v_user (weight_at 0 70)) = Some height_doc"
    by (simp add: weight_at_fields sample_latest_height)
  have h1: "latest_height ?c1 (v_user (weight_at 108000000 71)) = Some height_doc"
    by (simp add: latest_height_after_save weight_at_fields sample_latest_height)
  have h2: "latest_height ?c2 (v_user (weight_at 54000000 72)) = Some height_doc"
    by (simp add: latest_height_after_save weight_at_fields sample_latest_height)
  have t: "truthy_number (numeric (v_value (weight_at 0 70)))"
      "truthy_number (numeric (v_value (weight_at 108000000 71)))"
      "truthy_number (numeric (v_value (weight_at 54000000 72)))"
    by (simp_all add: weight_truthy)
  have c1: "?c1 = [height_doc, ?b0, weight_at 0 70]"
    unfolding save_vitals_def pre_save_fires[OF weight_at_fields(1) t(1) h0]
    by (simp add: weight_at_fields height_doc_not_bmi)
  have far: "\<not> bmi_filter 3 108000000 ?b0"
    by (simp add: bmi_new_window day_ms_def)
  have c2: "?c2 = [height_doc, ?b0, weight_at 0 70, ?b30, weight_at 108000000 71]"
    unfolding save_vitals_def[of ?c1] pre_save_fires[OF weight_at_fields(1) t(2) h1]
    unfolding c1
    by (simp add: weight_at_fields height_doc_not_bmi weight_at_not_bmi far)
  have near: "bmi_filter 3 54000000 ?b0" "bmi_filter 3 54000000 ?b30"
    by (simp_all add: bmi_new_window day_ms_def)
  have "length (bmi_in_window 3 54000000 ?c2) = 2"
    unfolding c2
    by (simp add: bmi_in_window_def height_doc_not_bmi weight_at_not_bmi near)
  with save_window_count[OF weight_at_fields(1) t(3) h2] show ?thesis
    by (simp add: weight_at_fields)
qed

theorem weight_save_upserts_bmi_witness:
  "v_type (weight_at 0 70) = js ''weight'' \<and> numeric (v_value (weight_at 0 70)) = Some (Fin 70)
   \<and> latest_height [height_doc] (v_user (weight_at 0 70)) = Some height_doc
   \<and> numeric (v_value height_doc) = Some (Fin 170)
   \<and> (\<exists>b \<in> set (save_vitals [height_doc] (weight_at 0 70)).
         v_type b = js ''bmi'' \<and> recordedAt b = 0
         \<and> numeric (v_value b) = Some (to_double (242 / 10)))
   \<and> length (bmi_in_window 3 0 (save_vitals [height_doc] (weight_at 0 70))) = 1
   \<and> length (bmi_rows 3 (save_vitals [height_doc] (weight_at 0 70))) = 1
   \<and> length (bmi_rows 3 (save_vitals (save_vitals [height_doc] (weight_at 0 70))
                             (weight_at 3600000 71))) = 1"
proof -
  have a1: "v_type (weight_at 0 70) = js ''weight''" by (simp add: weight_at_fields)
  have a2: "numeric (v_value (weight_at 0 70)) = Some (Fin 70)" by (simp add: weight_at_fields)
  have a3: "(70::rat) \<noteq> 0" by simp
  have a4: "latest_height [height_doc] (v_user (weight_at 0 70)) = Some height_doc"
    by (simp add: weight_at_fields sample_latest_height)
  have a5: "numeric (v_value height_doc) = Some (Fin 170)" by (simp add: height_doc_def)
  have e1: "bmi_in_window 3 0 [height_doc] = []"
    by (simp add: bmi_in_window_def height_doc_not_bmi)
  have e2: "bmi_rows 3 [height_doc] = []"
    by (simp add: bmi_rows_def height_doc_def js_def)
  have w2: "v_type (weight_at 3600000 71) = js ''weight''
      \<and> v_user (weight_at 3600000 71) = v_user (weight_at 0 70)
      \<and> numeric (v_value (weight_at 3600000 71)) = Some (Fin 71) \<and> (71::rat) \<noteq> 0
      \<and> \<bar>recordedAt (weight_at 3600000 71) - recordedAt (weight_at 0 70)\<bar> \<le> day_ms"
    by (simp add: weight_at_fields day_ms_def)
  from weight_save_upserts_bmi[OF a1 a2 a3 a4 a5] a1 a2 a4 a5 e1 e2 w2 show ?thesis
    unfolding bmi_70_170 by (auto simp: weight_at_fields)
qed

section \<open>Recording a blood pressure reading\<close>

lemma route_vitals_invalid: "validate_vitals (route_vitals date usr body recorded) = None"
  by (simp add: validate_vitals_def route_vitals_def)

lemma dec_digits_120: "dec_digits 120 = js ''120''"
  by (simp add: dec_digits.simps[of 120] dec_digits.simps[of 12] dec_digits.simps[of "Suc 0"] js_def)

lemma dec_digits_80: "dec_digits 80 = js ''80''"
  by (simp add: dec_digits.simps[of 80] dec_digits.simps[of 8] js_def)

lemma formatted_pressure: "formattedValue fmt pressure_doc = js ''120/80 mmHg''"
proof -
  have a: "js_number_string fmt (Fin 120) = js ''120''"
    by (simp add: js_number_string_def dec_digits_120)
  have b: "js_number_string fmt (Fin 80) = js ''80''"
    by (simp add: js_number_string_def dec_digits_80)
  have "js ''120'' @ js ''/'' @ js ''80'' @ js '' '' @ js ''mmHg'' = js ''120/80 mmHg''"
    by (simp add: js_def)
  then show ?thesis
    by (simp add: formattedValue_def pressure_doc_def template_number_def a b)
qed

text \<open>
  Claim C4 against the code. The create endpoint never stores a reading: whatever the body,
  it answers 400 (no \<open>recordedAt\<close>) or 500 (the document it builds has no type, no unit and
  no value, and fails validation), and leaves the collection as it was; so it does for a
  blood pressure of 120 over 80. The schema itself refuses a blood pressure reading that
  carries the pair only, since it requires the numeric value for that type too. The
  \<open>formattedValue\<close> of a stored reading of 120 over 80 mmHg is \<open>120/80 mmHg\<close>.
\<close>

theorem vitals_post_never_succeeds:
  "(fst (post_vitals date usr coll body) = Json 400 False (js ''Recorded date and time are required'') None
      \<or> fst (post_vitals date usr coll body) = Json 500 False (js ''Failed to record vitals'') None)
   \<and> snd (post_vitals date usr coll body) = coll
   \<and> fst (post_vitals date usr coll pressure_body) = Json 500 False (js ''Failed to record vitals'') None
   \<and> validate_vitals pressure_input = None
   \<and> formattedValue fmt pressure_doc = js ''120/80 mmHg''"
proof -
  have a: "(fst (post_vitals date usr coll body) = Json 400 False (js ''Recorded date and time are required'') None
      \<or> fst (post_vitals date usr coll body) = Json 500 False (js ''Failed to record vitals'') None)
     \<and> snd (post_vitals date usr coll body) = coll"
    by (simp add: post_vitals_def route_vitals_invalid split: option.splits)
  have b: "fst (post_vitals date usr coll pressure_body) = Json 500 False (js ''Failed to record vitals'') None"
    by (simp add: post_vitals_def route_vitals_invalid pressure_body_def js_def)
  have c: "validate_vitals pressure_input = None"
    by (simp add: validate_vitals_def pressure_input_def numeric_required_def subjective_types_def
        js_def)
  from a b c formatted_pressure show ?thesis by simp
qed

end
